theory Spec2Isabelle
  imports Main "HOL-Library.AList" "HOL-Library.Sublist"
begin

section \<open>Data model of exif-writer.py\<close>

text \<open>
  The five members of the Python enumeration \<open>Marker\<close> and their display forms
  (the \<open>.value\<close> of each member).
\<close>

datatype marker = MANDATORY | OPTIONAL | AUTO | SKIP | DELETE

fun marker_value :: "marker \<Rightarrow> string" where
  "marker_value MANDATORY = ''<MANDATORY>''"
| "marker_value OPTIONAL = ''<OPTIONAL>''"
| "marker_value AUTO = ''<AUTO>''"
| "marker_value SKIP = ''<SKIP>''"
| "marker_value DELETE = ''<DELETE>''"

definition all_markers :: "marker list" where
  "all_markers = [MANDATORY, OPTIONAL, AUTO, SKIP, DELETE]"

text \<open>
  Tag values. A Python float is kept abstract: the type parameter \<open>'f\<close> stands for
  it, and the few float operations the program uses are passed in where they are needed.
  A tag holds a scalar, a list or tuple of scalars, or a marker.
\<close>

datatype 'f atom = ANone | ABool bool | AInt int | AFloat 'f | AStr string

datatype 'f tagval = Lit "'f atom" | PyList "'f atom list" | PyTuple "'f atom list" | Mark marker

text \<open>
  A Python \<open>dict\<close> keeps its keys unique and in insertion order; it is an association
  list here. \<open>d[k] = v\<close> is \<open>AList.update k v d\<close>: it overwrites in place when the
  key is there and appends otherwise. \<open>d.get(k)\<close> is \<open>map_of d k\<close>.
\<close>

type_synonym 'f store = "(string \<times> 'f tagval) list"

datatype error =
    ValueError string
  | KeyError string
  | IndexError
  | TypeError
  | AttributeError
  | OSError
  | ToolError string

section \<open>Tag store and merge policy\<close>

text \<open>\<open>tag_iswritable\<close>: present, and neither SKIP nor DELETE.\<close>

definition tag_iswritable :: "string \<Rightarrow> 'f store \<Rightarrow> bool" where
  "tag_iswritable tag_name metadata =
     (case map_of metadata tag_name of
        None \<Rightarrow> False
      | Some v \<Rightarrow> v \<noteq> Mark SKIP \<and> v \<noteq> Mark DELETE)"

text \<open>\<open>isinstance(v, (list, tuple))\<close>, with the elements when it holds.\<close>

fun seq_items :: "'f tagval \<Rightarrow> 'f atom list option" where
  "seq_items (PyList xs) = Some xs"
| "seq_items (PyTuple xs) = Some xs"
| "seq_items _ = None"

text \<open>\<open>type(base[key])(value_old)\<close>: rebuild a container of the kind the base holds.\<close>

fun same_kind :: "'f tagval \<Rightarrow> 'f atom list \<Rightarrow> 'f tagval" where
  "same_kind (PyTuple _) xs = PyTuple xs"
| "same_kind _ xs = PyList xs"

text \<open>
  The positional loop of \<open>metadata_update\<close>:
  \<^verbatim>\<open>for i in range(len(value_new)):
      if i < len(value_old): value_old[i] = value_new[i]
      else: value_old.append(value_new[i])\<close>
\<close>

definition merge_step :: "'a list \<Rightarrow> nat \<Rightarrow> 'a list \<Rightarrow> 'a list" where
  "merge_step value_new i value_old =
     (if i < length value_old then value_old[i := value_new ! i]
      else value_old @ [value_new ! i])"

definition merge_positional :: "'a list \<Rightarrow> 'a list \<Rightarrow> 'a list" where
  "merge_positional value_old value_new =
     fold (merge_step value_new) [0 ..< length value_new] value_old"

text \<open>The body of the loop over \<open>update.items()\<close>, for one key.\<close>

definition update_item :: "'f store \<Rightarrow> string \<Rightarrow> 'f tagval \<Rightarrow> bool \<Rightarrow> 'f store" where
  "update_item base key value_new allow_new_tags =
     (case map_of base key of
        Some value_cur \<Rightarrow>
          if tag_iswritable key base then
            (case (seq_items value_new, seq_items value_cur) of
               (Some new_items, Some old_items) \<Rightarrow>
                 AList.update key (same_kind value_cur (merge_positional old_items new_items)) base
             | _ \<Rightarrow> AList.update key value_new base)
          else base
      | None \<Rightarrow>
          if allow_new_tags \<or> prefix ''Extra:'' key then AList.update key value_new base
          else base)"

fun metadata_update :: "'f store \<Rightarrow> 'f store \<Rightarrow> bool \<Rightarrow> 'f store" where
  "metadata_update base [] allow_new_tags = base"
| "metadata_update base ((key, value_new) # rest) allow_new_tags =
     metadata_update (update_item base key value_new allow_new_tags) rest allow_new_tags"

text \<open>The value \<open>metadata_update\<close> stores at a key that is present and writable.\<close>

definition new_value :: "'f tagval \<Rightarrow> 'f tagval \<Rightarrow> 'f tagval" where
  "new_value value_cur value_new =
     (case (seq_items value_new, seq_items value_cur) of
        (Some new_items, Some old_items) \<Rightarrow> same_kind value_cur (merge_positional old_items new_items)
      | _ \<Rightarrow> value_new)"

text \<open>When the loop body leaves a store as it is, read off the current entry of the key.\<close>

definition settled :: "'f tagval option \<Rightarrow> string \<Rightarrow> 'f tagval \<Rightarrow> bool \<Rightarrow> bool" where
  "settled cur key value_new allow =
     (case cur of
        Some value_cur \<Rightarrow>
          value_cur = Mark SKIP \<or> value_cur = Mark DELETE \<or> new_value value_cur value_new = value_cur
      | None \<Rightarrow> \<not> (allow \<or> prefix ''Extra:'' key))"

section \<open>Operations of the Python runtime\<close>

text \<open>
  The operations on Python floats that the program uses, and \<open>repr\<close> of a string,
  as a record of functions: \<open>float_lit\<close> reads a float literal of the source text,
  \<open>float_parse\<close> is \<open>float(s)\<close> (\<open>None\<close> when it raises ValueError),
  \<open>float_neg\<close> is unary minus, \<open>float_ge0\<close> is \<open>x >= 0\<close>,
  \<open>float_str\<close> is \<open>str(x)\<close> and \<open>str_repr\<close> is \<open>repr(s)\<close>.
\<close>

record 'f py_ops =
  float_lit :: "string \<Rightarrow> 'f"
  float_parse :: "string \<Rightarrow> 'f option"
  float_neg :: "'f \<Rightarrow> 'f"
  float_ge0 :: "'f \<Rightarrow> bool"
  float_str :: "'f \<Rightarrow> string"
  str_repr :: "string \<Rightarrow> string"

section \<open>The flash enumeration and the device rule\<close>

definition exif_flash_enum :: "(int \<times> string) list" where
  "exif_flash_enum =
    [(0, ''No Flash''),
     (1, ''Fired''),
     (5, ''Fired, Return not detected''),
     (7, ''Fired, Return detected''),
     (8, ''On, Did not fire''),
     (9, ''On, Fired''),
     (13, ''On, Return not detected''),
     (15, ''On, Return detected''),
     (16, ''Off, Did not fire''),
     (20, ''Off, Did not fire, Return not detected''),
     (24, ''Auto, Did not fire''),
     (25, ''Auto, Fired''),
     (29, ''Auto, Fired, Return not detected''),
     (31, ''Auto, Fired, Return detected''),
     (32, ''No flash function''),
     (48, ''Off, No flash function''),
     (65, ''Fired, Red-eye reduction''),
     (69, ''Fired, Red-eye reduction, Return not detected''),
     (71, ''Fired, Red-eye reduction, Return detected''),
     (73, ''On, Red-eye reduction''),
     (77, ''On, Red-eye reduction, Return not detected''),
     (79, ''On, Red-eye reduction, Return detected''),
     (80, ''Off, Red-eye reduction''),
     (88, ''Auto, Did not fire, Red-eye reduction''),
     (89, ''Auto, Fired, Red-eye reduction''),
     (93, ''Auto, Fired, Red-eye reduction, Return not detected''),
     (95, ''Auto, Fired, Red-eye reduction, Return detected'')]"

definition exif_flash_enum_fired :: "int list" where
  "exif_flash_enum_fired = [1, 5, 7, 9, 25, 29, 31, 65, 69, 71, 73, 77, 79, 89, 93, 95]"

definition exif_flash_enum_notfired :: "int list" where
  "exif_flash_enum_notfired = [0, 8, 16, 20, 24, 88]"

definition exif_flash_enum_notpresent :: "int list" where
  "exif_flash_enum_notpresent = [32, 48]"

text \<open>
  The first half of \<open>exif_flash_fired\<close>: an int (a bool is an int in Python) must be a
  key of the enumeration, a string is looked up among the display names and replaced by
  its key, anything else is a ValueError.
\<close>

definition flash_code :: "'f tagval \<Rightarrow> error + int" where
  "flash_code exif_flash_value =
     (case exif_flash_value of
        Lit (AInt n) \<Rightarrow>
          if n \<in> fst ` set exif_flash_enum then Inr n
          else Inl (ValueError ''Unknown EXIF Flash value'')
      | Lit (ABool b) \<Rightarrow>
          if (if b then 1 else 0) \<in> fst ` set exif_flash_enum then Inr (if b then 1 else 0)
          else Inl (ValueError ''Unknown EXIF Flash value'')
      | Lit (AStr s) \<Rightarrow>
          (case find (\<lambda>kv. snd kv = s) exif_flash_enum of
             Some kv \<Rightarrow> Inr (fst kv)
           | None \<Rightarrow> Inl (ValueError ''Unknown EXIF Flash value''))
      | _ \<Rightarrow> Inl (ValueError ''Invalid EXIF Flash value type''))"

text \<open>
  \<open>exif_flash_fired\<close>; \<open>Inr None\<close> is the Python \<open>None\<close> returned when the
  function runs off its end.
\<close>

definition exif_flash_fired :: "'f tagval \<Rightarrow> error + bool option" where
  "exif_flash_fired exif_flash_value =
     (case flash_code exif_flash_value of
        Inl e \<Rightarrow> Inl e
      | Inr code \<Rightarrow>
          if code \<in> set exif_flash_enum_fired then Inr (Some True)
          else if code \<in> set exif_flash_enum_notfired then Inr (Some False)
          else if code \<in> set exif_flash_enum_notpresent then Inr (Some False)
          else Inr None)"

text \<open>\<open>if tag_iswritable(t, metadata): metadata[t] = v\<close>\<close>

definition set_if_writable :: "string \<Rightarrow> 'f tagval \<Rightarrow> 'f store \<Rightarrow> 'f store" where
  "set_if_writable tag_name v metadata =
     (if tag_iswritable tag_name metadata then AList.update tag_name v metadata else metadata)"

fun is_marker :: "'f tagval \<Rightarrow> bool" where
  "is_marker (Mark _) = True"
| "is_marker _ = False"

text \<open>
  The condition \<open>'EXIF:Flash' in metadata and exif_flash_fired(metadata['EXIF:Flash'])\<close>
  of the device rule: \<open>None\<close> and \<open>False\<close> are both falsy.
\<close>

definition flash_truthy :: "'f store \<Rightarrow> error + bool" where
  "flash_truthy metadata =
     (case map_of metadata ''EXIF:Flash'' of
        None \<Rightarrow> Inr False
      | Some v \<Rightarrow>
          (case exif_flash_fired v of
             Inl e \<Rightarrow> Inl e
           | Inr r \<Rightarrow> Inr (r = Some True)))"

definition metadata_update_conditional :: "'f py_ops \<Rightarrow> 'f store \<Rightarrow> error + 'f store" where
  "metadata_update_conditional fo metadata =
     (if map_of metadata ''Make'' = Some (Lit (AStr ''Panasonic''))
         \<and> (map_of metadata ''Model'' = Some (Lit (AStr ''C-D325EF''))
            \<or> map_of metadata ''Model'' = Some (Lit (AStr ''C-325EF'')))
      then
        let m1 = (if tag_iswritable ''EXIF:Flash'' metadata
                     \<and> (case map_of metadata ''EXIF:Flash'' of Some v \<Rightarrow> is_marker v | None \<Rightarrow> False)
                  then AList.update ''EXIF:Flash'' (Lit (AStr (the (map_of exif_flash_enum 24)))) metadata
                  else metadata);
            exposure_time = Lit (AStr ''1/130'');
            m2 = set_if_writable ''ExposureTime'' exposure_time m1;
            m3 = set_if_writable ''ShutterSpeedValue'' exposure_time m2
        in case flash_truthy m3 of
             Inl e \<Rightarrow> Inl e
           | Inr fired \<Rightarrow>
               let aperture_fnumber =
                     Lit (AFloat (if fired then float_lit fo ''5.6'' else float_lit fo ''9.0''));
                   m4 = set_if_writable ''FNumber'' aperture_fnumber m3;
                   m5 = set_if_writable ''ApertureValue'' aperture_fnumber m4;
                   focal_length = Lit (AFloat (float_lit fo ''34.0''));
                   m6 = set_if_writable ''FocalLength'' focal_length m5;
                   m7 = set_if_writable ''FocalLengthIn35mmFormat'' focal_length m6;
                   m8 = set_if_writable ''LensInfo''
                          (PyList [AFloat (float_lit fo ''34.0''), AFloat (float_lit fo ''34.0''),
                                   AFloat (float_lit fo ''5.6''), AFloat (float_lit fo ''5.6'')]) m7;
                   m9 = set_if_writable ''LensMake'' (Lit (AStr ''Panasonic'')) m8
               in Inr (set_if_writable ''LensModel''
                         (Lit (AStr ''Built-in, fixed-focus prime lens (1.3m-inf.)'')) m9)
      else Inr metadata)"

section \<open>Image geometric transform\<close>

text \<open>
  A raster is the numpy array \<open>image\<close>: \<open>shape0\<close> rows of \<open>shape1\<close> samples each
  (\<open>image.shape[0]\<close>, \<open>image.shape[1]\<close>); a sample may itself be a vector of channels.
\<close>

record 'a image =
  shape0 :: nat
  shape1 :: nat
  pixels :: "'a list list"

definition wf_image :: "'a image \<Rightarrow> bool" where
  "wf_image img = (length (pixels img) = shape0 img \<and> list_all (\<lambda>row. length row = shape1 img) (pixels img))"

text \<open>\<open>image[top:top + height, left:left + width]\<close> for a box inside the raster.\<close>

definition crop_slice :: "'a image \<Rightarrow> nat \<Rightarrow> nat \<Rightarrow> nat \<Rightarrow> nat \<Rightarrow> 'a image" where
  "crop_slice img row0 nrows col0 ncols =
     img\<lparr>shape0 := nrows, shape1 := ncols,
         pixels := map (\<lambda>row. take ncols (drop col0 row)) (take nrows (drop row0 (pixels img)))\<rparr>"

text \<open>\<open>np.rot90\<close>: one quarter turn counterclockwise, \<open>k\<close> times.\<close>

definition rot90_once :: "'a image \<Rightarrow> 'a image" where
  "rot90_once img =
     img\<lparr>shape0 := shape1 img, shape1 := shape0 img,
         pixels := map (\<lambda>i. map (\<lambda>row. row ! (shape1 img - 1 - i)) (pixels img)) [0 ..< shape1 img]\<rparr>"

definition rot90 :: "nat \<Rightarrow> 'a image \<Rightarrow> 'a image" where
  "rot90 k img = (rot90_once ^^ k) img"

definition fliplr :: "'a image \<Rightarrow> 'a image" where
  "fliplr img = img\<lparr>pixels := map rev (pixels img)\<rparr>"

definition flipud :: "'a image \<Rightarrow> 'a image" where
  "flipud img = img\<lparr>pixels := rev (pixels img)\<rparr>"

text \<open>
  \<open>image_transform\<close>. \<open>rotate_cw\<close> is \<open>None\<close> or an int; \<open>if rotate_cw:\<close> skips both
  \<open>None\<close> and 0. The flips default to \<open>None\<close>, which is falsy like \<open>False\<close>.
\<close>

definition image_transform ::
  "'a image \<Rightarrow> int \<Rightarrow> int \<Rightarrow> int \<Rightarrow> int \<Rightarrow> int option \<Rightarrow> bool \<Rightarrow> bool \<Rightarrow> error + 'a image" where
  "image_transform img crop_left crop_top crop_width0 crop_height0 rotate_cw flip_horizontal flip_vertical =
     (let crop_width = (if crop_width0 = 0 then int (shape1 img) else crop_width0);
          crop_height = (if crop_height0 = 0 then int (shape0 img) else crop_height0)
      in if crop_width \<le> 0 \<or> crop_height \<le> 0
         then Inl (ValueError ''Error! Crop region size is invalid.'')
         else if crop_left < 0 \<or> crop_top < 0
                 \<or> int (shape0 img) < crop_top + crop_height
                 \<or> int (shape1 img) < crop_left + crop_width
         then Inl (ValueError ''Error! Crop region is outside image boundaries.'')
         else
           let cropped = crop_slice img (nat crop_top) (nat crop_height) (nat crop_left) (nat crop_width);
               rotated =
                 (case rotate_cw of
                    None \<Rightarrow> Inr cropped
                  | Some r \<Rightarrow>
                      if r = 0 then Inr cropped
                      else if r mod 90 \<noteq> 0
                      then Inl (ValueError ''Error! Rotate can only be performed by multiple of 90 degrees.'')
                      else let k = ((- r) div 90) mod 4
                           in if k \<noteq> 0 then Inr (rot90 (nat k) cropped) else Inr cropped)
           in case rotated of
                Inl e \<Rightarrow> Inl e
              | Inr img1 \<Rightarrow>
                  let img2 = (if flip_horizontal then fliplr img1 else img1)
                  in Inr (if flip_vertical then flipud img2 else img2))"

section \<open>Strings and numbers\<close>

text \<open>Results that may raise: \<open>Inl\<close> carries the exception.\<close>

definition ebind :: "error + 'a \<Rightarrow> ('a \<Rightarrow> error + 'b) \<Rightarrow> error + 'b" where
  "ebind m f = (case m of Inl e \<Rightarrow> Inl e | Inr x \<Rightarrow> f x)"

text \<open>\<open>str(n)\<close> for an int, and the format specs \<open>0wd\<close> and \<open>+0wd\<close>.\<close>

fun str_nat :: "nat \<Rightarrow> string" where
  "str_nat n = (if n < 10 then [''0123456789'' ! n] else str_nat (n div 10) @ [''0123456789'' ! (n mod 10)])"

definition str_int :: "int \<Rightarrow> string" where
  "str_int i = (if i < 0 then CHR ''-'' # str_nat (nat (- i)) else str_nat (nat i))"

definition format_d :: "bool \<Rightarrow> nat \<Rightarrow> int \<Rightarrow> string" where
  "format_d show_plus width i =
     (let sign = (if i < 0 then ''-'' else if show_plus then ''+'' else '''');
          digits = str_nat (nat \<bar>i\<bar>)
      in sign @ replicate (width - length sign - length digits) (CHR ''0'') @ digits)"

text \<open>\<open>repr\<close> and \<open>str\<close> of values.\<close>

fun repr_atom :: "'f py_ops \<Rightarrow> 'f atom \<Rightarrow> string" where
  "repr_atom po ANone = ''None''"
| "repr_atom po (ABool b) = (if b then ''True'' else ''False'')"
| "repr_atom po (AInt i) = str_int i"
| "repr_atom po (AFloat x) = float_str po x"
| "repr_atom po (AStr s) = str_repr po s"

fun str_atom :: "'f py_ops \<Rightarrow> 'f atom \<Rightarrow> string" where
  "str_atom po (AStr s) = s"
| "str_atom po a = repr_atom po a"

fun join_str :: "string \<Rightarrow> string list \<Rightarrow> string" where
  "join_str sep [] = ''''"
| "join_str sep [x] = x"
| "join_str sep (x # y # ys) = x @ sep @ join_str sep (y # ys)"

fun marker_name :: "marker \<Rightarrow> string" where
  "marker_name MANDATORY = ''MANDATORY''"
| "marker_name OPTIONAL = ''OPTIONAL''"
| "marker_name AUTO = ''AUTO''"
| "marker_name SKIP = ''SKIP''"
| "marker_name DELETE = ''DELETE''"

fun py_str :: "'f py_ops \<Rightarrow> 'f tagval \<Rightarrow> string" where
  "py_str po (Lit a) = str_atom po a"
| "py_str po (PyList xs) = ''['' @ join_str '', '' (map (repr_atom po) xs) @ '']''"
| "py_str po (PyTuple xs) =
     (case xs of
        [x] \<Rightarrow> ''('' @ repr_atom po x @ '',)''
      | _ \<Rightarrow> ''('' @ join_str '', '' (map (repr_atom po) xs) @ '')'')"
| "py_str po (Mark m) = ''Marker.'' @ marker_name m"

text \<open>\<open>format(v, '02d')\<close>: an int or a bool is formatted, anything else raises.\<close>

fun format_02d :: "'f tagval \<Rightarrow> error + string" where
  "format_02d (Lit (AInt i)) = Inr (format_d False 2 i)"
| "format_02d (Lit (ABool b)) = Inr (format_d False 2 (if b then 1 else 0))"
| "format_02d (Lit (AFloat x)) = Inl (ValueError ''Unknown format code d'')"
| "format_02d (Lit (AStr s)) = Inl (ValueError ''Unknown format code d'')"
| "format_02d (Mark m) = Inl (ValueError ''Unknown format code d'')"
| "format_02d _ = Inl TypeError"

text \<open>\<open>str2float\<close> with its default arguments.\<close>

definition str2float :: "'f py_ops \<Rightarrow> string \<Rightarrow> error + 'f" where
  "str2float po s =
     (if prefix ''m'' s
      then (case float_parse po (drop 1 s) of
              Some x \<Rightarrow> Inr (float_neg po x)
            | None \<Rightarrow> Inl (ValueError ''Cannot convert to float''))
      else (case float_parse po s of
              Some x \<Rightarrow> Inr x
            | None \<Rightarrow> Inl (ValueError ''Cannot convert to float'')))"

section \<open>Auto-fill\<close>

text \<open>
  What \<open>metadata_autofill\<close> reads from outside the store: the clock
  (\<open>now.strftime("%Y:%m:%d %H:%M:%S")\<close> and \<open>now.strftime("%z")\<close>), the width and
  height of the first page of the staged TIFF, the ModifyDate reported by the metadata
  tool, and the \<open>%z\<close> offset of a date string in the local time zone (a ValueError
  there is caught by the program).
\<close>

record autofill_env =
  now_date :: string
  now_zone :: string
  tiff_width :: "error + int"
  tiff_height :: "error + int"
  tool_modify_date :: "error + string"
  local_zone :: "string \<Rightarrow> error + string"

text \<open>\<open>metadata.get(k) == Marker.AUTO\<close>\<close>

definition is_auto :: "'f store \<Rightarrow> string \<Rightarrow> bool" where
  "is_auto metadata k = (map_of metadata k = Some (Mark AUTO))"

text \<open>\<open>metadata.get(k)\<close>: \<open>None\<close> when the key is absent.\<close>

definition get_or_none :: "'f store \<Rightarrow> string \<Rightarrow> 'f tagval" where
  "get_or_none metadata k = (case map_of metadata k of Some v \<Rightarrow> v | None \<Rightarrow> Lit ANone)"

definition autofill_document_name :: "'f py_ops \<Rightarrow> 'f store \<Rightarrow> error + 'f store" where
  "autofill_document_name po metadata =
     (if is_auto metadata ''DocumentName'' then
        let film_id = get_or_none metadata ''Extra:FilmID'';
            film_frame = get_or_none metadata ''Extra:FilmFrameNumber'';
            strip_id = get_or_none metadata ''Extra:StripID'';
            strip_frame = get_or_none metadata ''Extra:StripFrameNumber''
        in if film_id \<noteq> Lit ANone \<and> film_frame \<noteq> Lit ANone
              \<and> strip_id \<noteq> Lit ANone \<and> strip_frame \<noteq> Lit ANone
           then ebind (format_02d film_frame) (\<lambda>frame.
                  Inr (AList.update ''DocumentName''
                         (Lit (AStr (py_str po film_id @ ''-'' @ frame @ ''_S''
                                     @ py_str po strip_id @ ''-'' @ py_str po strip_frame)))
                         metadata))
           else Inr (AList.update ''DocumentName'' (Lit (AStr '''')) metadata)
      else Inr metadata)"

definition autofill_modify_date :: "autofill_env \<Rightarrow> 'f store \<Rightarrow> 'f store" where
  "autofill_modify_date env metadata =
     (if is_auto metadata ''ModifyDate'' then
        let m1 = AList.update ''ModifyDate'' (Lit (AStr (now_date env))) metadata
        in if tag_iswritable ''OffsetTime'' m1 \<and> map_of m1 ''OffsetTime'' = Some (Mark AUTO)
           then AList.update ''OffsetTime''
                  (Lit (AStr (take 3 (now_zone env) @ '':'' @ drop 3 (now_zone env)))) m1
           else m1
      else metadata)"

text \<open>\<open>metadata[dst] = metadata.get(src, Marker.SKIP)\<close> when \<open>dst\<close> holds AUTO.\<close>

definition autofill_copy :: "string \<Rightarrow> string \<Rightarrow> 'f store \<Rightarrow> 'f store" where
  "autofill_copy dst src metadata =
     (if is_auto metadata dst
      then AList.update dst (case map_of metadata src of Some v \<Rightarrow> v | None \<Rightarrow> Mark SKIP) metadata
      else metadata)"

definition autofill_shutter_speed :: "'f store \<Rightarrow> 'f store" where
  "autofill_shutter_speed = autofill_copy ''ShutterSpeedValue'' ''ExposureTime''"

definition autofill_aperture :: "'f store \<Rightarrow> 'f store" where
  "autofill_aperture = autofill_copy ''ApertureValue'' ''FNumber''"

definition autofill_dimension :: "string \<Rightarrow> error + int \<Rightarrow> 'f store \<Rightarrow> error + 'f store" where
  "autofill_dimension tag_name read metadata =
     (if is_auto metadata tag_name
      then ebind read (\<lambda>n. Inr (AList.update tag_name (Lit (AInt n)) metadata))
      else Inr metadata)"

definition autofill_create_date :: "autofill_env \<Rightarrow> 'f store \<Rightarrow> error + 'f store" where
  "autofill_create_date env metadata =
     (if is_auto metadata ''CreateDate'' then
        ebind (tool_modify_date env) (\<lambda>modify_date.
          let create_date = map (\<lambda>c. if c = CHR ''.'' then CHR '':'' else c) modify_date;
              m1 = AList.update ''CreateDate'' (Lit (AStr create_date)) metadata
          in if is_auto m1 ''OffsetTimeDigitized'' then
               (case local_zone env create_date of
                  Inr dtz_offset \<Rightarrow>
                    Inr (AList.update ''OffsetTimeDigitized''
                           (Lit (AStr (take 3 dtz_offset @ '':'' @ drop 3 dtz_offset))) m1)
                | Inl (ValueError msg) \<Rightarrow> Inr m1
                | Inl e \<Rightarrow> Inl e)
             else Inr m1)
      else Inr metadata)"

text \<open>
  The GPS reference tags. \<open>numeric_int\<close> says whether an int (and so a bool) passes the
  \<open>isinstance\<close> test: latitude tests \<open>float\<close> only, longitude \<open>(float, int)\<close>.
\<close>

definition autofill_gps_ref ::
  "'f py_ops \<Rightarrow> string \<Rightarrow> string \<Rightarrow> char \<Rightarrow> char \<Rightarrow> bool \<Rightarrow> 'f store \<Rightarrow> error + 'f store" where
  "autofill_gps_ref po ref_tag tag_name pos_c neg_c numeric_int metadata =
     (if is_auto metadata ref_tag then
        (case get_or_none metadata tag_name of
           Mark m \<Rightarrow> Inr (AList.update ref_tag (Mark SKIP) metadata)
         | Lit (AStr s) \<Rightarrow>
             if prefix [pos_c] s \<or> prefix [neg_c] s
             then ebind (str2float po (drop 1 s)) (\<lambda>x.
                    Inr (AList.update tag_name (Lit (AFloat x))
                           (AList.update ref_tag (Lit (AStr (take 1 s))) metadata)))
             else Inl (ValueError ''Error! GPS coordinate cannot be parsed.'')
         | Lit (AFloat x) \<Rightarrow>
             if float_ge0 po x then Inr (AList.update ref_tag (Lit (AStr [pos_c])) metadata)
             else Inr (AList.update tag_name (Lit (AFloat (float_neg po x)))
                         (AList.update ref_tag (Lit (AStr [neg_c])) metadata))
         | Lit (AInt i) \<Rightarrow>
             if \<not> numeric_int then Inl (ValueError ''Error! GPS coordinate cannot be processed.'')
             else if i \<ge> 0 then Inr (AList.update ref_tag (Lit (AStr [pos_c])) metadata)
             else Inr (AList.update tag_name (Lit (AInt (- i)))
                         (AList.update ref_tag (Lit (AStr [neg_c])) metadata))
         | Lit (ABool b) \<Rightarrow>
             if \<not> numeric_int then Inl (ValueError ''Error! GPS coordinate cannot be processed.'')
             else Inr (AList.update ref_tag (Lit (AStr [pos_c])) metadata)
         | _ \<Rightarrow> Inl (ValueError ''Error! GPS coordinate cannot be processed.''))
      else Inr metadata)"

definition autofill_gps_altitude :: "'f py_ops \<Rightarrow> 'f store \<Rightarrow> error + 'f store" where
  "autofill_gps_altitude po metadata =
     (if is_auto metadata ''GPSAltitudeRef'' then
        (case get_or_none metadata ''GPSAltitude'' of
           Mark m \<Rightarrow> Inr (AList.update ''GPSAltitudeRef'' (Mark SKIP) metadata)
         | Lit (AFloat x) \<Rightarrow>
             if float_ge0 po x
             then Inr (AList.update ''GPSAltitudeRef'' (Lit (AStr ''Above Sea Level'')) metadata)
             else Inr (AList.update ''GPSAltitude'' (Lit (AFloat (float_neg po x)))
                         (AList.update ''GPSAltitudeRef'' (Lit (AStr ''Below Sea Level'')) metadata))
         | Lit (AInt i) \<Rightarrow>
             if i \<ge> 0
             then Inr (AList.update ''GPSAltitudeRef'' (Lit (AStr ''Above Sea Level'')) metadata)
             else Inr (AList.update ''GPSAltitude'' (Lit (AInt (- i)))
                         (AList.update ''GPSAltitudeRef'' (Lit (AStr ''Below Sea Level'')) metadata))
         | Lit (ABool b) \<Rightarrow>
             Inr (AList.update ''GPSAltitudeRef'' (Lit (AStr ''Above Sea Level'')) metadata)
         | _ \<Rightarrow> Inl (ValueError ''Error! GPS altitude cannot be processed.''))
      else Inr metadata)"

definition autofill_gps_method :: "'f store \<Rightarrow> 'f store" where
  "autofill_gps_method metadata =
     (if is_auto metadata ''GPSProcessingMethod'' then
        if \<not> is_marker (case map_of metadata ''GPSLatitude'' of Some v \<Rightarrow> v | None \<Rightarrow> Mark SKIP)
           \<and> \<not> is_marker (case map_of metadata ''GPSLongitude'' of Some v \<Rightarrow> v | None \<Rightarrow> Mark SKIP)
        then AList.update ''GPSProcessingMethod'' (Lit (AStr ''MANUAL'')) metadata
        else AList.update ''GPSProcessingMethod'' (Mark SKIP) metadata
      else metadata)"

text \<open>\<open>metadata_autofill\<close>: the steps in the order of the source.\<close>

definition metadata_autofill :: "autofill_env \<Rightarrow> 'f py_ops \<Rightarrow> 'f store \<Rightarrow> error + 'f store" where
  "metadata_autofill env po metadata =
     ebind (autofill_document_name po metadata) (\<lambda>m1.
     let m2 = autofill_modify_date env m1;
         m3 = autofill_shutter_speed m2;
         m4 = autofill_aperture m3
     in ebind (autofill_dimension ''ExifImageWidth'' (tiff_width env) m4) (\<lambda>m5.
        ebind (autofill_dimension ''ExifImageHeight'' (tiff_height env) m5) (\<lambda>m6.
        ebind (autofill_create_date env m6) (\<lambda>m7.
        ebind (autofill_gps_ref po ''GPSLatitudeRef'' ''GPSLatitude'' (CHR ''N'') (CHR ''S'') False m7) (\<lambda>m8.
        ebind (autofill_gps_ref po ''GPSLongitudeRef'' ''GPSLongitude'' (CHR ''E'') (CHR ''W'') True m8) (\<lambda>m9.
        ebind (autofill_gps_altitude po m9) (\<lambda>m10.
        Inr (autofill_gps_method m10))))))))"

section \<open>Directory metadata files\<close>

text \<open>
  \<open>str.strip\<close> and \<open>str.lstrip\<close> remove whitespace; these are the whitespace
  code points below 256.
\<close>

definition is_space :: "char \<Rightarrow> bool" where
  "is_space c = ((of_char c :: nat) \<in> set [9, 10, 11, 12, 13, 28, 29, 30, 31, 32, 133, 160])"

definition lstrip :: "string \<Rightarrow> string" where
  "lstrip s = dropWhile is_space s"

definition strip :: "string \<Rightarrow> string" where
  "strip s = rev (dropWhile is_space (rev (dropWhile is_space s)))"

text \<open>
  What \<open>ast.literal_eval\<close> gives on a string: a literal (never a marker), a ValueError
  or SyntaxError, or another exception. The function itself is a parameter of the model.
\<close>

datatype 'f literal = LAtom "'f atom" | LList "'f atom list" | LTuple "'f atom list"

datatype 'f lit_result = LitValue "'f literal" | LitFail | LitRaise

fun of_literal :: "'f literal \<Rightarrow> 'f tagval" where
  "of_literal (LAtom a) = Lit a"
| "of_literal (LList xs) = PyList xs"
| "of_literal (LTuple xs) = PyTuple xs"

text \<open>
  The inner loop
  \<^verbatim>\<open>for marker in Marker:
      if value == marker.value:
          result[key] = marker
          continue\<close>
  whose \<open>continue\<close> goes on with the next marker.
\<close>

definition assign_marker :: "string \<Rightarrow> string \<Rightarrow> 'f store \<Rightarrow> marker \<Rightarrow> 'f store" where
  "assign_marker key val result m =
     (if val = marker_value m then AList.update key (Mark m) result else result)"

text \<open>The body of the loop over the lines; \<open>None\<close> is an exception caught at the end.\<close>

definition get_file_line ::
  "(string \<Rightarrow> 'f lit_result) \<Rightarrow> bool \<Rightarrow> 'f store \<Rightarrow> string \<Rightarrow> 'f store option" where
  "get_file_line literal_eval strip_whitespace result line =
     (if length line > 0 then
        if prefix ''#'' (lstrip line) \<or> prefix '';'' (lstrip line) then Some result
        else if CHR ''='' \<notin> set line then Some result
        else
          let key0 = takeWhile (\<lambda>c. c \<noteq> CHR ''='') line;
              val0 = drop 1 (dropWhile (\<lambda>c. c \<noteq> CHR ''='') line);
              key = (if strip_whitespace then strip key0 else key0);
              val = (if strip_whitespace then strip val0 else val0);
              result1 = foldl (assign_marker key val) result all_markers
          in (case literal_eval val of
                LitValue v \<Rightarrow> Some (AList.update key (of_literal v) result1)
              | LitFail \<Rightarrow> Some (AList.update key (Lit (AStr val)) result1)
              | LitRaise \<Rightarrow> None)
      else Some result)"

fun get_file_lines ::
  "(string \<Rightarrow> 'f lit_result) \<Rightarrow> bool \<Rightarrow> 'f store \<Rightarrow> string list \<Rightarrow> 'f store option" where
  "get_file_lines literal_eval strip_whitespace result [] = Some result"
| "get_file_lines literal_eval strip_whitespace result (line # rest) =
     (case get_file_line literal_eval strip_whitespace result line of
        None \<Rightarrow> None
      | Some result1 \<Rightarrow> get_file_lines literal_eval strip_whitespace result1 rest)"

text \<open>
  \<open>metadata_get_file\<close> on the lines of the file. \<open>None\<close> is the \<open>None\<close> the function
  returns when an exception is caught.
\<close>

definition metadata_get_file ::
  "(string \<Rightarrow> 'f lit_result) \<Rightarrow> bool \<Rightarrow> string list \<Rightarrow> 'f store option" where
  "metadata_get_file literal_eval strip_whitespace lines =
     (case get_file_lines literal_eval strip_whitespace [] lines of
        None \<Rightarrow> None
      | Some result \<Rightarrow>
          if map_of result ''ImageTransform:Enabled'' = None
             \<and> list_ex (\<lambda>kv. prefix ''ImageTransform:'' (fst kv)) result
          then Some (AList.update ''ImageTransform:Enabled'' (Lit (ABool True)) result)
          else Some result)"

section \<open>Filename grammar decoder\<close>

subsection \<open>String operations of the decoder\<close>

text \<open>\<open>sub in s\<close>, that is \<open>s.find(sub) >= 0\<close>.\<close>

fun contains :: "string \<Rightarrow> string \<Rightarrow> bool" where
  "contains sub [] = (sub = [])"
| "contains sub (c # cs) = (prefix sub (c # cs) \<or> contains sub cs)"

text \<open>
  The cut \<open>s.rsplit(sep, 1)\<close> makes: at the occurrence of \<open>sep\<close> that starts
  last; \<open>None\<close> when there is none.
\<close>

fun rsplit_last :: "string \<Rightarrow> string \<Rightarrow> (string \<times> string) option" where
  "rsplit_last sep [] = None"
| "rsplit_last sep (c # cs) =
     (case rsplit_last sep cs of
        Some (l, r) \<Rightarrow> Some (c # l, r)
      | None \<Rightarrow> if prefix sep (c # cs) then Some ([], drop (length sep) (c # cs)) else None)"

definition rsplit1 :: "string \<Rightarrow> string \<Rightarrow> string list" where
  "rsplit1 sep s = (case rsplit_last sep s of None \<Rightarrow> [s] | Some (l, r) \<Rightarrow> [l, r])"

text \<open>\<open>s.split(c)\<close> and \<open>s.split(c, 1)\<close> for a separator of one character.\<close>

fun split_chr :: "char \<Rightarrow> string \<Rightarrow> string list" where
  "split_chr sep [] = [[]]"
| "split_chr sep (c # cs) =
     (if c = sep then [] # split_chr sep cs
      else (case split_chr sep cs of
              w # ws \<Rightarrow> (c # w) # ws
            | [] \<Rightarrow> [[c]]))"

definition split_chr1 :: "char \<Rightarrow> string \<Rightarrow> string list" where
  "split_chr1 sep s =
     (if sep \<in> set s
      then [takeWhile (\<lambda>c. c \<noteq> sep) s, drop 1 (dropWhile (\<lambda>c. c \<noteq> sep) s)]
      else [s])"

text \<open>\<open>s.replace(old, new)\<close> for a nonempty \<open>old\<close>; \<open>skip\<close> counts the characters of a
  match still to be passed over.\<close>

fun replace_from :: "string \<Rightarrow> string \<Rightarrow> nat \<Rightarrow> string \<Rightarrow> string" where
  "replace_from old new skip [] = []"
| "replace_from old new (Suc n) (c # cs) = replace_from old new n cs"
| "replace_from old new 0 (c # cs) =
     (if prefix old (c # cs) then new @ replace_from old new (length old - 1) cs
      else c # replace_from old new 0 cs)"

definition replace_str :: "string \<Rightarrow> string \<Rightarrow> string \<Rightarrow> string" where
  "replace_str old new s = replace_from old new 0 s"

text \<open>
  \<open>int(s)\<close> on a string: surrounding whitespace is dropped, a sign may lead, and single
  underscores may stand between digits. \<open>None\<close> is the ValueError.

  The whitespace of \<open>int\<close> is not that of \<open>str.strip\<close>: below 256 it is tab, line
  feed, vertical tab, form feed, carriage return and space, and the two code points 133
  and 160, which \<open>int\<close> turns into spaces; the separators 28 to 31, which
  \<open>str.strip\<close> removes, make \<open>int\<close> raise. A string of more than
  \<open>sys.get_int_max_str_digits()\<close> digits, 4300 unless configured, raises as well.
\<close>

definition is_int_space :: "char \<Rightarrow> bool" where
  "is_int_space c = ((of_char c :: nat) \<in> set [9, 10, 11, 12, 13, 32, 133, 160])"

definition int_strip :: "string \<Rightarrow> string" where
  "int_strip s = rev (dropWhile is_int_space (rev (dropWhile is_int_space s)))"

definition int_max_str_digits :: nat where
  "int_max_str_digits = 4300"

definition is_digit :: "char \<Rightarrow> bool" where
  "is_digit c = (48 \<le> (of_char c :: nat) \<and> (of_char c :: nat) \<le> 57)"

definition digit_val :: "char \<Rightarrow> nat" where
  "digit_val c = of_char c - 48"

fun int_digits :: "nat \<Rightarrow> string \<Rightarrow> nat option" where
  "int_digits acc [] = Some acc"
| "int_digits acc [c] = (if is_digit c then Some (10 * acc + digit_val c) else None)"
| "int_digits acc (c # d # ds) =
     (if is_digit c then int_digits (10 * acc + digit_val c) (d # ds)
      else if c = CHR ''_'' \<and> is_digit d then int_digits (10 * acc + digit_val d) ds
      else None)"

definition unsigned_int :: "string \<Rightarrow> nat option" where
  "unsigned_int s =
     (case s of
        [] \<Rightarrow> None
      | c # cs \<Rightarrow>
          if is_digit c \<and> length (filter is_digit s) \<le> int_max_str_digits
          then int_digits (digit_val c) cs
          else None)"

definition py_int :: "string \<Rightarrow> int option" where
  "py_int s =
     (case int_strip s of
        [] \<Rightarrow> None
      | c # cs \<Rightarrow>
          if c = CHR ''-'' then map_option (\<lambda>n. - int n) (unsigned_int cs)
          else if c = CHR ''+'' then map_option int (unsigned_int cs)
          else map_option int (unsigned_int (c # cs)))"

text \<open>\<open>str2int\<close> with its default negative prefix \<open>m\<close>.\<close>

definition str2int :: "string \<Rightarrow> error + int" where
  "str2int s =
     (if prefix ''m'' s
      then (case py_int (drop 1 s) of
              Some i \<Rightarrow> Inr (- i)
            | None \<Rightarrow> Inl (ValueError ''Cannot convert to integer''))
      else (case py_int s of
              Some i \<Rightarrow> Inr i
            | None \<Rightarrow> Inl (ValueError ''Cannot convert to integer'')))"

text \<open>A list comprehension that raises at the first element that fails.\<close>

fun map_err :: "('a \<Rightarrow> error + 'b) \<Rightarrow> 'a list \<Rightarrow> error + 'b list" where
  "map_err f [] = Inr []"
| "map_err f (x # xs) = ebind (f x) (\<lambda>y. ebind (map_err f xs) (\<lambda>ys. Inr (y # ys)))"

definition exif_orientation_enum :: "(int \<times> string) list" where
  "exif_orientation_enum =
    [(1, ''Horizontal (normal)''),
     (2, ''Mirror horizontal''),
     (3, ''Rotate 180''),
     (4, ''Mirror vertical''),
     (5, ''Mirror horizontal and rotate 270 CW''),
     (6, ''Rotate 90 CW''),
     (7, ''Mirror horizontal and rotate 90 CW''),
     (8, ''Rotate 270 CW'')]"

text \<open>\<open>d[k]\<close> on one of the enumeration dicts: KeyError when the key is missing.\<close>

definition enum_get :: "(int \<times> string) list \<Rightarrow> int \<Rightarrow> error + string" where
  "enum_get d k = (case map_of d k of Some v \<Rightarrow> Inr v | None \<Rightarrow> Inl (KeyError (str_int k)))"

subsection \<open>The variables of the decoder\<close>

text \<open>
  The local variables of \<open>metadata_get_path\<close> that the token loop assigns; \<open>None\<close>
  is the Python \<open>None\<close> they start with. The two datetime variables hold a string
  first and a list of ints after conversion.
\<close>

datatype dt_value = DtStr string | DtInts "int list"

record 'f dec_state =
  film_id :: "string option"
  film_frame :: "int option"
  strip_id :: "string option"
  strip_frame :: "int option"
  image_number :: "int option"
  crop :: "int list option"
  rotate :: "int option"
  flip :: "(bool \<times> bool) option"
  compression :: "string option"
  exposure_time :: "'f atom option"
  aperture :: "'f option"
  iso :: "int option"
  flash :: "int option"
  orientation :: "int option"
  lens_focal_length :: "int option"
  camera_maker :: "string option"
  camera_model :: "string option"
  datetime_original :: "dt_value option"
  datetime_original_offset :: "dt_value option"
  gnss_latitude :: "'f option"
  gnss_longitude :: "'f option"
  gnss_altitude :: "'f option"
  image_description :: "string option"
  image_title :: "string option"
  user_comment :: "string option"

definition dec_init :: "'f dec_state" where
  "dec_init =
     \<lparr>film_id = None, film_frame = None, strip_id = None, strip_frame = None,
      image_number = None, crop = None, rotate = None, flip = None, compression = None,
      exposure_time = None, aperture = None, iso = None, flash = None, orientation = None,
      lens_focal_length = None, camera_maker = None, camera_model = None,
      datetime_original = None, datetime_original_offset = None,
      gnss_latitude = None, gnss_longitude = None, gnss_altitude = None,
      image_description = None, image_title = None, user_comment = None\<rparr>"

subsection \<open>One rule per leading character\<close>

text \<open>\<open>F\<close> and \<open>S\<close>: an identifier and, after the last dash, a frame number.\<close>

definition decode_id_frame :: "string \<Rightarrow> string \<Rightarrow> error + string \<times> int option" where
  "decode_id_frame msg entry_value =
     (case rsplit1 ''-'' entry_value of
        [ident] \<Rightarrow> Inr (ident, None)
      | ident # frame # _ \<Rightarrow>
          if frame \<noteq> [] then ebind (str2int frame) (\<lambda>n. Inr (ident, Some n))
          else Inl (ValueError msg)
      | [] \<Rightarrow> Inl IndexError)"

definition decode_F :: "'f dec_state \<Rightarrow> string \<Rightarrow> error + 'f dec_state" where
  "decode_F st entry_value =
     ebind (decode_id_frame ''Error! Frame number on film value not specified.'' entry_value)
       (\<lambda>(ident, frame).
          Inr (case frame of
                 None \<Rightarrow> st\<lparr>film_id := Some ident\<rparr>
               | Some n \<Rightarrow> st\<lparr>film_id := Some ident, film_frame := Some n\<rparr>))"

definition decode_S :: "'f dec_state \<Rightarrow> string \<Rightarrow> error + 'f dec_state" where
  "decode_S st entry_value =
     ebind (decode_id_frame ''Error! Frame number on strip value not specified.'' entry_value)
       (\<lambda>(ident, frame).
          Inr (case frame of
                 None \<Rightarrow> st\<lparr>strip_id := Some ident\<rparr>
               | Some n \<Rightarrow> st\<lparr>strip_id := Some ident, strip_frame := Some n\<rparr>))"

text \<open>The first \<open>N\<close> rule: the image number.\<close>

definition decode_N :: "'f dec_state \<Rightarrow> string \<Rightarrow> error + 'f dec_state" where
  "decode_N st entry_value =
     (if entry_value \<noteq> []
      then ebind (str2int entry_value) (\<lambda>n. Inr (st\<lparr>image_number := Some n\<rparr>))
      else Inl (ValueError ''Error! Image number value not specified.''))"

definition decode_C :: "'f dec_state \<Rightarrow> string \<Rightarrow> error + 'f dec_state" where
  "decode_C st entry_value =
     (if entry_value \<noteq> []
      then ebind (map_err str2int (split_chr (CHR ''-'') entry_value)) (\<lambda>values.
             if list_ex (\<lambda>v. v < 0) values
             then Inl (ValueError ''Error! Crop values cannot be negative.'')
             else Inr (st\<lparr>crop := Some values\<rparr>))
      else Inl (ValueError ''Error! Crop value not specified.''))"

definition decode_R :: "'f dec_state \<Rightarrow> string \<Rightarrow> error + 'f dec_state" where
  "decode_R st entry_value =
     (let flip_h = (CHR ''H'' \<in> set entry_value);
          v1 = (if flip_h then filter (\<lambda>c. c \<noteq> CHR ''H'') entry_value else entry_value);
          flip_v = (CHR ''V'' \<in> set v1);
          v2 = (if flip_v then filter (\<lambda>c. c \<noteq> CHR ''V'') v1 else v1)
      in if v2 = ''90CW'' then Inr (st\<lparr>rotate := Some 90, flip := Some (flip_h, flip_v)\<rparr>)
         else if v2 = ''90CCW'' then Inr (st\<lparr>rotate := Some 270, flip := Some (flip_h, flip_v)\<rparr>)
         else ebind (str2int v2) (\<lambda>n. Inr (st\<lparr>rotate := Some n, flip := Some (flip_h, flip_v)\<rparr>)))"

definition decode_Z :: "'f dec_state \<Rightarrow> string \<Rightarrow> error + 'f dec_state" where
  "decode_Z st entry_value =
     (if entry_value \<noteq> [] then Inr (st\<lparr>compression := Some entry_value\<rparr>)
      else Inl (ValueError ''Error! Comperession identifier not specified.''))"

definition decode_T :: "'f py_ops \<Rightarrow> 'f dec_state \<Rightarrow> string \<Rightarrow> error + 'f dec_state" where
  "decode_T po st entry_value =
     (if entry_value \<noteq> [] then
        if prefix [CHR 0x27] entry_value
        then ebind (str2int (drop 1 entry_value)) (\<lambda>n. Inr (st\<lparr>exposure_time := Some (AInt (- n))\<rparr>))
        else ebind (str2float po entry_value) (\<lambda>x. Inr (st\<lparr>exposure_time := Some (AFloat x)\<rparr>))
      else Inl (ValueError ''Error! Exposure time value not specified.''))"

definition decode_A :: "'f py_ops \<Rightarrow> 'f dec_state \<Rightarrow> string \<Rightarrow> error + 'f dec_state" where
  "decode_A po st entry_value =
     (if entry_value \<noteq> []
      then ebind (str2float po entry_value) (\<lambda>x. Inr (st\<lparr>aperture := Some x\<rparr>))
      else Inl (ValueError ''Error! Aperture value not specified.''))"

definition decode_I :: "'f dec_state \<Rightarrow> string \<Rightarrow> error + 'f dec_state" where
  "decode_I st entry_value =
     (if entry_value \<noteq> []
      then ebind (str2int entry_value) (\<lambda>n. Inr (st\<lparr>iso := Some n\<rparr>))
      else Inl (ValueError ''Error! ISO value not specified.''))"

definition decode_X :: "'f dec_state \<Rightarrow> string \<Rightarrow> error + 'f dec_state" where
  "decode_X st entry_value =
     (if entry_value \<noteq> []
      then ebind (str2int entry_value) (\<lambda>n. Inr (st\<lparr>flash := Some n\<rparr>))
      else Inl (ValueError ''Error! Flash value not specified.''))"

definition decode_O :: "'f dec_state \<Rightarrow> string \<Rightarrow> error + 'f dec_state" where
  "decode_O st entry_value =
     (if entry_value \<noteq> [] then
        ebind (if entry_value = ''90CW'' then Inr 6
               else if entry_value = ''90CCW'' then Inr 8
               else if entry_value = ''180'' then Inr 3
               else str2int entry_value) (\<lambda>n.
          if \<not> (1 \<le> n \<and> n \<le> 8) then Inl (ValueError ''Error! Invalid orientation value.'')
          else Inr (st\<lparr>orientation := Some n\<rparr>))
      else Inl (ValueError ''Error! Orientation value not specified.''))"

definition decode_L :: "'f dec_state \<Rightarrow> string \<Rightarrow> error + 'f dec_state" where
  "decode_L st entry_value =
     (if entry_value \<noteq> []
      then ebind (str2int entry_value) (\<lambda>n. Inr (st\<lparr>lens_focal_length := Some n\<rparr>))
      else Inl (ValueError ''Error! Lens focal length value not specified.''))"

definition decode_M :: "'f dec_state \<Rightarrow> string \<Rightarrow> error + 'f dec_state" where
  "decode_M st entry_value =
     (case split_chr1 (CHR ''@'') entry_value of
        [] \<Rightarrow> Inl IndexError
      | model # others \<Rightarrow>
          let st1 = (if model \<noteq> [] then st\<lparr>camera_model := Some model\<rparr> else st)
          in (case others of
                maker # _ \<Rightarrow> Inr (if maker \<noteq> [] then st1\<lparr>camera_maker := Some maker\<rparr> else st1)
              | [] \<Rightarrow> Inr st1))"

text \<open>\<open>D\<close>: the original timestamp and, after \<open>@\<close>, its UTC offset.\<close>

definition decode_datetime :: "string \<Rightarrow> error + dt_value" where
  "decode_datetime s =
     (if s \<noteq> [] then
        ebind (map_err str2int (split_chr (CHR ''-'') s)) (\<lambda>parsed.
          let vals = parsed @ replicate (6 - length parsed) 0
          in if \<not> (0 \<le> vals ! 0 \<and> vals ! 0 \<le> 9999)
             then Inl (ValueError ''Error! Datetime year must be 4 digits long.'')
             else if list_ex (\<lambda>v. \<not> (0 \<le> v \<and> v \<le> 99)) (tl vals)
             then Inl (ValueError ''Error! Datetime component value (except year) must be 2 digits long.'')
             else Inr (DtInts vals))
      else Inr (DtStr s))"

definition decode_offset :: "dt_value option \<Rightarrow> error + dt_value option" where
  "decode_offset v =
     (case v of
        None \<Rightarrow> Inr None
      | Some (DtInts xs) \<Rightarrow> Inl AttributeError
      | Some (DtStr s) \<Rightarrow>
          ebind (map_err str2int (split_chr1 (CHR ''-'') s)) (\<lambda>parsed.
            let vals = parsed @ replicate (2 - length parsed) 0
            in if \<not> (- 24 \<le> vals ! 0 \<and> vals ! 0 \<le> 24)
               then Inl (ValueError ''Error! Datetime offset hours must within +-24.'')
               else if \<not> (0 \<le> vals ! 1 \<and> vals ! 1 \<le> 59)
               then Inl (ValueError ''Error! Datetime offset minutes must be between 0 and 59.'')
               else Inr (Some (DtInts vals))))"

definition decode_D :: "'f dec_state \<Rightarrow> string \<Rightarrow> error + 'f dec_state" where
  "decode_D st entry_value =
     (if entry_value \<noteq> [] then
        let tmp = split_chr1 (CHR ''@'') entry_value;
            offset0 = (if length tmp > 1 \<and> strip (tmp ! 1) \<noteq> []
                       then Some (DtStr (strip (tmp ! 1)))
                       else datetime_original_offset st)
        in ebind (decode_datetime (strip (tmp ! 0))) (\<lambda>dt.
           ebind (decode_offset offset0) (\<lambda>off.
             Inr (st\<lparr>datetime_original := Some dt, datetime_original_offset := off\<rparr>)))
      else Inl (ValueError ''Error! Datetime value not specified.''))"

text \<open>\<open>G\<close>: latitude, longitude and altitude; \<open>gnss_sign * str2float(...)\<close> with the
  sign taken from a leading letter.\<close>

definition signed_coord :: "'f py_ops \<Rightarrow> char \<Rightarrow> char \<Rightarrow> string \<Rightarrow> error + 'f" where
  "signed_coord po pos_c neg_c s =
     (if prefix [pos_c] s then str2float po (drop 1 s)
      else if prefix [neg_c] s then ebind (str2float po (drop 1 s)) (\<lambda>x. Inr (float_neg po x))
      else str2float po s)"

definition decode_G :: "'f py_ops \<Rightarrow> 'f dec_state \<Rightarrow> string \<Rightarrow> error + 'f dec_state" where
  "decode_G po st entry_value0 =
     (let entry_value = filter (\<lambda>c. c \<noteq> CHR '' '') entry_value0;
          gnss_location = split_chr (CHR '','') entry_value
      in if 2 \<le> length gnss_location \<and> length gnss_location \<le> 3 then
           ebind (signed_coord po (CHR ''N'') (CHR ''S'') (gnss_location ! 0)) (\<lambda>lat.
           ebind (signed_coord po (CHR ''E'') (CHR ''W'') (gnss_location ! 1)) (\<lambda>lon.
             if length gnss_location > 2
             then ebind (str2float po (gnss_location ! 2)) (\<lambda>alt.
                    Inr (st\<lparr>gnss_latitude := Some lat, gnss_longitude := Some lon,
                            gnss_altitude := Some alt\<rparr>))
             else Inr (st\<lparr>gnss_latitude := Some lat, gnss_longitude := Some lon\<rparr>)))
         else Inl (ValueError ''Error! GPS location cannot be parsed.''))"

subsection \<open>The scan over the tokens\<close>

text \<open>
  The body of \<open>for entry in metadata\<close>: the rules in the order of the source, each
  ending in \<open>continue\<close>. The second rule for \<open>N\<close>, the image description, stands after
  \<open>H\<close> as it does in the source.
\<close>

definition decode_entry :: "'f py_ops \<Rightarrow> 'f dec_state \<Rightarrow> string \<Rightarrow> error + 'f dec_state" where
  "decode_entry po st entry =
     (if prefix ''F'' entry then decode_F st (drop 1 entry)
      else if prefix ''S'' entry then decode_S st (drop 1 entry)
      else if prefix ''N'' entry then decode_N st (drop 1 entry)
      else if prefix ''C'' entry then decode_C st (drop 1 entry)
      else if prefix ''R'' entry then decode_R st (drop 1 entry)
      else if prefix ''Z'' entry then decode_Z st (drop 1 entry)
      else if prefix ''T'' entry then decode_T po st (drop 1 entry)
      else if prefix ''A'' entry then decode_A po st (drop 1 entry)
      else if prefix ''I'' entry then decode_I st (drop 1 entry)
      else if prefix ''X'' entry then decode_X st (drop 1 entry)
      else if prefix ''O'' entry then decode_O st (drop 1 entry)
      else if prefix ''L'' entry then decode_L st (drop 1 entry)
      else if prefix ''M'' entry then decode_M st (drop 1 entry)
      else if prefix ''D'' entry then decode_D st (drop 1 entry)
      else if prefix ''G'' entry then decode_G po st (drop 1 entry)
      else if prefix ''H'' entry
      then Inr (st\<lparr>image_title := Some (replace_str ''&#95;'' ''_'' (drop 1 entry))\<rparr>)
      else if prefix ''N'' entry
      then Inr (st\<lparr>image_description := Some (replace_str ''&#95;'' ''_'' (drop 1 entry))\<rparr>)
      else if prefix ''U'' entry
      then Inr (st\<lparr>user_comment := Some (replace_str ''&#95;'' ''_'' (drop 1 entry))\<rparr>)
      else Inr st)"

fun decode_entries :: "'f py_ops \<Rightarrow> 'f dec_state \<Rightarrow> string list \<Rightarrow> error + 'f dec_state" where
  "decode_entries po st [] = Inr st"
| "decode_entries po st (entry # rest) =
     ebind (decode_entry po st entry) (\<lambda>st1. decode_entries po st1 rest)"

subsection \<open>Splitting the stem\<close>

text \<open>
  The split of \<open>file_name\<close> into \<open>file_id\<close> and the \<open>metadata\<close> string:
  \<^verbatim>\<open>if file_name.find('__') < 0:
      file_id = file_name
      metadata = ""
  else:
      basename_metadata = file_name.rsplit('__', 1)
      if len(basename_metadata[0]) > 0: file_id = basename_metadata[0]
      metadata = basename_metadata[1]\<close>
\<close>

definition split_stem :: "string \<Rightarrow> string option \<times> string" where
  "split_stem file_name =
     (if \<not> contains ''__'' file_name then (Some file_name, '''')
      else let basename_metadata = rsplit1 ''__'' file_name
           in (if length (basename_metadata ! 0) > 0 then Some (basename_metadata ! 0) else None,
               basename_metadata ! 1))"

subsection \<open>The increment\<close>

text \<open>
  The parts of the path that \<open>pathlib\<close> computes: \<open>input_path.stem\<close>,
  \<open>input_path.suffix\<close>, and the path and its parent relative to the base directory.
\<close>

record path_info =
  stem :: string
  suffix :: string
  relpath :: string
  reldir :: string

definition put_opt :: "'f store \<Rightarrow> string \<times> 'f tagval option \<Rightarrow> 'f store" where
  "put_opt result kv = (case snd kv of None \<Rightarrow> result | Some v \<Rightarrow> AList.update (fst kv) v result)"

definition enabled_if :: "'a option \<Rightarrow> 'f tagval option" where
  "enabled_if v = (case v of None \<Rightarrow> None | Some _ \<Rightarrow> Some (Lit (ABool True)))"

definition format_datetime :: "dt_value option \<Rightarrow> error + string option" where
  "format_datetime v =
     (case v of
        None \<Rightarrow> Inr None
      | Some (DtStr s) \<Rightarrow> (if s = [] then Inl IndexError else Inl (ValueError ''Unknown format code d''))
      | Some (DtInts xs) \<Rightarrow>
          if length xs < 6 then Inl IndexError
          else Inr (Some (format_d False 4 (xs ! 0) @ '':'' @ format_d False 2 (xs ! 1) @ '':''
                          @ format_d False 2 (xs ! 2) @ '' '' @ format_d False 2 (xs ! 3) @ '':''
                          @ format_d False 2 (xs ! 4) @ '':'' @ format_d False 2 (xs ! 5))))"

definition format_offset :: "dt_value option \<Rightarrow> error + string option" where
  "format_offset v =
     (case v of
        None \<Rightarrow> Inr None
      | Some (DtStr s) \<Rightarrow> (if s = [] then Inl IndexError else Inl (ValueError ''Unknown format code d''))
      | Some (DtInts xs) \<Rightarrow>
          if length xs < 2 then Inl IndexError
          else Inr (Some (format_d True 3 (xs ! 0) @ '':'' @ format_d False 2 (xs ! 1))))"

definition exposure_value :: "'f py_ops \<Rightarrow> 'f atom \<Rightarrow> 'f tagval" where
  "exposure_value po t =
     (case t of
        AInt i \<Rightarrow> if i \<ge> 0 then Lit (AInt i) else Lit (AStr (''1/'' @ str_int (- i)))
      | AFloat x \<Rightarrow> if float_ge0 po x then Lit (AFloat x)
                    else Lit (AStr (''1/'' @ float_str po (float_neg po x)))
      | a \<Rightarrow> Lit a)"

definition opt_enum :: "(int \<times> string) list \<Rightarrow> int option \<Rightarrow> error + string option" where
  "opt_enum d v = (case v of None \<Rightarrow> Inr None | Some k \<Rightarrow> ebind (enum_get d k) (\<lambda>s. Inr (Some s)))"

definition str_val :: "string \<Rightarrow> 'f tagval" where
  "str_val s = Lit (AStr s)"

definition int_val :: "int \<Rightarrow> 'f tagval" where
  "int_val i = Lit (AInt i)"

definition float_val :: "'f \<Rightarrow> 'f tagval" where
  "float_val x = Lit (AFloat x)"

text \<open>The assignments to \<open>result\<close> at the end of \<open>metadata_get_path\<close>, in their order;
  an assignment under an \<open>if ... is not None\<close> that fails has no value here.\<close>

definition result_entries ::
  "'f py_ops \<Rightarrow> path_info \<Rightarrow> string option \<Rightarrow> 'f dec_state \<Rightarrow>
   string option \<Rightarrow> string option \<Rightarrow> string option \<Rightarrow> string option \<Rightarrow>
   (string \<times> 'f tagval option) list" where
  "result_entries po pinfo file_id st flash_name orientation_name datetime_text offset_text =
    [(''Extra:FileID'', map_option str_val file_id),
     (''Extra:FileNameBase'', Some (str_val (stem pinfo))),
     (''Extra:FileNameExtension'', Some (str_val (filter (\<lambda>c. c \<noteq> CHR ''.'') (suffix pinfo)))),
     (''Extra:FilePath'', Some (str_val (relpath pinfo))),
     (''Extra:FileDirectory'', Some (str_val (reldir pinfo))),
     (''ReelName'', map_option str_val (film_id st)),
     (''Extra:FilmID'', map_option str_val (film_id st)),
     (''ImageNumber'', map_option int_val (film_frame st)),
     (''Extra:FilmFrameNumber'', map_option int_val (film_frame st)),
     (''Extra:StripID'', map_option str_val (strip_id st)),
     (''Extra:StripFrameNumber'', map_option int_val (strip_frame st)),
     (''ImageNumber'', map_option int_val (image_number st)),
     (''ImageTransform:Crop'', map_option (\<lambda>c. PyList (map AInt c)) (crop st)),
     (''ImageTransform:Enabled'', enabled_if (crop st)),
     (''ImageTransform:Rotate'', map_option int_val (rotate st)),
     (''ImageTransform:Enabled'', enabled_if (rotate st)),
     (''ImageTransform:Flip'', map_option (\<lambda>f. PyList [ABool (fst f), ABool (snd f)]) (flip st)),
     (''ImageTransform:Enabled'', enabled_if (flip st)),
     (''ImageTransform:Compression'', map_option str_val (compression st)),
     (''ImageTransform:Enabled'', enabled_if (compression st)),
     (''ExposureTime'', map_option (exposure_value po) (exposure_time st)),
     (''FNumber'', map_option float_val (aperture st)),
     (''ISO'', map_option int_val (iso st)),
     (''EXIF:Flash'', map_option str_val flash_name),
     (''Orientation'', map_option str_val orientation_name),
     (''FocalLength'', map_option int_val (lens_focal_length st)),
     (''Make'', map_option str_val (camera_maker st)),
     (''Model'', map_option str_val (camera_model st)),
     (''DateTimeOriginal'', map_option str_val datetime_text),
     (''OffsetTimeOriginal'', map_option str_val offset_text),
     (''GPSLatitude'', map_option float_val (gnss_latitude st)),
     (''GPSLongitude'', map_option float_val (gnss_longitude st)),
     (''GPSAltitude'', map_option float_val (gnss_altitude st)),
     (''ImageDescription'', map_option str_val (image_description st)),
     (''ImageTitle'', map_option str_val (image_title st)),
     (''UserComment'', map_option str_val (user_comment st))]"

definition build_result ::
  "'f py_ops \<Rightarrow> path_info \<Rightarrow> string option \<Rightarrow> 'f dec_state \<Rightarrow> error + 'f store" where
  "build_result po pinfo file_id st =
     ebind (opt_enum exif_flash_enum (flash st)) (\<lambda>flash_name.
     ebind (opt_enum exif_orientation_enum (orientation st)) (\<lambda>orientation_name.
     ebind (format_datetime (datetime_original st)) (\<lambda>datetime_text.
     ebind (format_offset (datetime_original_offset st)) (\<lambda>offset_text.
       Inr (foldl put_opt []
              (result_entries po pinfo file_id st flash_name orientation_name
                 datetime_text offset_text))))))"

text \<open>\<open>metadata_get_path\<close>.\<close>

definition metadata_get_path :: "'f py_ops \<Rightarrow> path_info \<Rightarrow> error + 'f store" where
  "metadata_get_path po pinfo =
     (let split = split_stem (stem pinfo)
      in ebind (decode_entries po dec_init (split_chr (CHR ''_'') (snd split))) (\<lambda>st.
           build_result po pinfo (fst split) st))"

text \<open>A rule's result, when it is a state, has the description variable of the state before.\<close>

definition keeps_description :: "'f dec_state \<Rightarrow> error + 'f dec_state \<Rightarrow> bool" where
  "keeps_description st r =
     (case r of Inl e \<Rightarrow> True | Inr st1 \<Rightarrow> image_description st1 = image_description st)"

section \<open>Emission\<close>

text \<open>\<open>delete_keys_with_prefixes\<close>\<close>

definition delete_keys_with_prefixes :: "'f store \<Rightarrow> string list \<Rightarrow> 'f store" where
  "delete_keys_with_prefixes dictionary prefix_list =
     filter (\<lambda>kv. \<not> list_ex (\<lambda>p. prefix p (fst kv)) prefix_list) dictionary"

text \<open>
  The regular expression \<open>^\d{4}:\d{2}:\d{2} \d{2}:\d{2}:\d{2}$\<close> on a string with no
  newline in it.
\<close>

definition datetime_regex_match :: "string \<Rightarrow> bool" where
  "datetime_regex_match s =
     (length s = 19
      \<and> list_all (\<lambda>i. is_digit (s ! i)) [0, 1, 2, 3, 5, 6, 8, 9, 11, 12, 14, 15, 17, 18]
      \<and> s ! 4 = CHR '':'' \<and> s ! 7 = CHR '':'' \<and> s ! 10 = CHR '' ''
      \<and> s ! 13 = CHR '':'' \<and> s ! 16 = CHR '':'')"

definition datetime_tags :: "string list" where
  "datetime_tags = [''DateTimeOriginal'', ''ModifyDate'', ''CreateDate'']"

text \<open>
  The value after the two conversions of the loop body: a list or tuple becomes the
  stripped concatenation of \<open>str(item) + ' '\<close>, and in a string every newline becomes
  \<open>&#xd;&#xa;\<close>.
\<close>

definition flatten_value :: "'f py_ops \<Rightarrow> 'f tagval \<Rightarrow> 'f tagval" where
  "flatten_value po tag_value =
     (let v1 = (case seq_items tag_value of
                  Some items \<Rightarrow> Lit (AStr (strip (concat (map (\<lambda>item. str_atom po item @ '' '') items))))
                | None \<Rightarrow> tag_value)
      in case v1 of
           Lit (AStr s) \<Rightarrow> Lit (AStr (replace_str [CHR 0x0A] ''&#xd;&#xa;'' s))
         | _ \<Rightarrow> v1)"

text \<open>
  The body of \<open>for tag_name, tag_value in metadata.items()\<close>: the arguments it appends,
  or the exception it raises. \<open>strptime_ok\<close> says whether
  \<open>datetime.strptime(s, "%Y:%m:%d %H:%M:%S")\<close> accepts the string. An AUTO marker only
  prints a warning and goes on to be formatted.
\<close>

definition emit_tag ::
  "'f py_ops \<Rightarrow> (string \<Rightarrow> bool) \<Rightarrow> string \<Rightarrow> 'f tagval \<Rightarrow> error + string list" where
  "emit_tag po strptime_ok tag_name tag_value =
     (if tag_value = Mark DELETE then Inr [''-'' @ tag_name @ ''='']
      else if tag_value = Mark SKIP \<or> tag_value = Mark OPTIONAL then Inr []
      else if tag_value = Mark MANDATORY
      then Inl (ValueError ''Error! Mandatory tag value not assigned.'')
      else
        let v = flatten_value po tag_value
        in if v = Lit (AStr '''') then Inr [''-'' @ tag_name @ ''^='']
           else if tag_name \<in> set datetime_tags then
             (case v of
                Lit (AStr s) \<Rightarrow>
                  if datetime_regex_match s \<and> \<not> strptime_ok s
                  then Inr [''-'' @ tag_name @ ''#='' @ s]
                  else Inr [''-'' @ tag_name @ ''='' @ s]
              | _ \<Rightarrow> Inl TypeError)
           else Inr [''-'' @ tag_name @ ''='' @ py_str po v])"

fun emit_all ::
  "'f py_ops \<Rightarrow> (string \<Rightarrow> bool) \<Rightarrow> 'f store \<Rightarrow> error + string list" where
  "emit_all po strptime_ok [] = Inr []"
| "emit_all po strptime_ok ((tag_name, tag_value) # rest) =
     ebind (emit_tag po strptime_ok tag_name tag_value) (\<lambda>args.
       ebind (emit_all po strptime_ok rest) (\<lambda>more_args. Inr (args @ more_args)))"

text \<open>The argument list handed to the metadata tool (after the executable's name).\<close>

definition build_args ::
  "'f py_ops \<Rightarrow> (string \<Rightarrow> bool) \<Rightarrow> 'f store \<Rightarrow> string \<Rightarrow> error + string list" where
  "build_args po strptime_ok metadata output_path =
     ebind (emit_all po strptime_ok metadata) (\<lambda>args.
       Inr ([''-E'', ''-overwrite_original''] @ args @ [output_path]))"

text \<open>Whether the loop body gets through a tag.\<close>

definition emits :: "'f py_ops \<Rightarrow> (string \<Rightarrow> bool) \<Rightarrow> string \<times> 'f tagval \<Rightarrow> bool" where
  "emits po strptime_ok kv =
     (case emit_tag po strptime_ok (fst kv) (snd kv) of Inl e \<Rightarrow> False | Inr args \<Rightarrow> True)"

text \<open>A literal value as the metadata tool can take it at a tag: at one of the three
  datetime tags a string, a list or a tuple; anything but a marker elsewhere.\<close>

fun is_text :: "'f tagval \<Rightarrow> bool" where
  "is_text (Lit (AStr s)) = True"
| "is_text (PyList xs) = True"
| "is_text (PyTuple xs) = True"
| "is_text _ = False"

section \<open>The end of process\_file\<close>

text \<open>
  What the last part of \<open>process_file\<close> takes from outside: the output path that
  \<open>path_build\<close> and \<open>os.path.join\<close> render from the template and the store (or the
  exception they raise), \<open>datetime.strptime\<close>, and the run of the metadata tool on the
  file at the output path, which gives whether the exit status was zero and the file as
  the tool left it.
\<close>

record ('f, 'b) finish_env =
  resolve_output :: "'f store \<Rightarrow> error + string"
  strptime_ok :: "string \<Rightarrow> bool"
  run_tool :: "string list \<Rightarrow> 'b \<Rightarrow> bool \<times> 'b"

definition stripped_prefixes :: "string list" where
  "stripped_prefixes = [''ImageTransform:'', ''Script:'', ''Scanner:'', ''ImageHistory:'', ''Extra:'']"

text \<open>
  \<open>process_file\<close> from the call of \<open>metadata_autofill\<close> to its return. The files are a
  map from paths to contents; \<open>temp_path\<close> holds the staged file. The result is the
  returned output path or the exception, with the files as they are left.
\<close>

definition process_file_finish ::
  "autofill_env \<Rightarrow> 'f py_ops \<Rightarrow> ('f, 'b) finish_env \<Rightarrow> (string \<rightharpoonup> 'b) \<Rightarrow> string \<Rightarrow> 'f store \<Rightarrow>
   (error + string) \<times> (string \<rightharpoonup> 'b)" where
  "process_file_finish env po fe files temp_path metadata0 =
     (case metadata_autofill env po metadata0 of
        Inl e \<Rightarrow> (Inl e, files)
      | Inr metadata \<Rightarrow>
          (case resolve_output fe metadata of
             Inl e \<Rightarrow> (Inl e, files)
           | Inr output_path \<Rightarrow>
               (case files temp_path of
                  None \<Rightarrow> (Inl OSError, files)
                | Some staged \<Rightarrow>
                    let files1 = (files(temp_path := None))(output_path \<mapsto> staged);
                        metadata1 = delete_keys_with_prefixes metadata stripped_prefixes
                    in (case build_args po (strptime_ok fe) metadata1 output_path of
                          Inl e \<Rightarrow> (Inl e, files1)
                        | Inr args \<Rightarrow>
                            let ran = run_tool fe args staged
                            in (if fst ran then Inr output_path
                                else Inl (ToolError ''exiftool returned non-zero exit status''),
                                files1(output_path \<mapsto> snd ran))))))"

section \<open>Instances for evaluation\<close>

text \<open>
  Concrete parameters on which the model can be run: floats stood in for by ints that
  count tenths, a fixed clock and staged file, and a metadata tool that appends the
  arguments it was given to the file.
\<close>

definition int_ops :: "int py_ops" where
  "int_ops =
     \<lparr>float_lit = (\<lambda>s. case py_int (filter (\<lambda>c. c \<noteq> CHR ''.'') s) of Some i \<Rightarrow> i | None \<Rightarrow> 0),
      float_parse = (\<lambda>s. py_int (filter (\<lambda>c. c \<noteq> CHR ''.'') s)),
      float_neg = uminus,
      float_ge0 = (\<lambda>x. 0 \<le> x),
      float_str = str_int,
      str_repr = (\<lambda>s. [CHR 0x27] @ s @ [CHR 0x27])\<rparr>"

definition example_env :: autofill_env where
  "example_env =
     \<lparr>now_date = ''2025:06:19 10:00:00'', now_zone = ''+0300'', tiff_width = Inr 4096,
      tiff_height = Inr 2656, tool_modify_date = Inr ''2025:06:18 09:00:00'',
      local_zone = (\<lambda>s. Inr ''+0300'')\<rparr>"

definition example_finish :: "(int, string) finish_env" where
  "example_finish =
     \<lparr>resolve_output = (\<lambda>metadata. Inr ''out/a.tif''),
      strptime_ok = (\<lambda>s. True),
      run_tool = (\<lambda>args staged. (True, staged @ concat args))\<rparr>"

definition example_files :: "string \<rightharpoonup> string" where
  "example_files = [''tmp/a.tmp'' \<mapsto> ''staged image'']"

section \<open>Verified properties\<close>

subsection \<open>The merge\<close>

lemma merge_positional_prefix:
  "n \<le> length value_new \<Longrightarrow>
   fold (merge_step value_new) [0 ..< n] value_old = take n value_new @ drop n value_old"
proof (induction n)
  case 0
  then show ?case by simp
next
  case (Suc n)
  then have lt: "n < length value_new" and
    ih: "fold (merge_step value_new) [0 ..< n] value_old = take n value_new @ drop n value_old"
    by simp_all
  have len: "length (take n value_new) = n" using lt by simp
  have step: "fold (merge_step value_new) [0 ..< Suc n] value_old
      = merge_step value_new n (take n value_new @ drop n value_old)"
    using ih by simp
  show ?case
  proof (cases "n < length value_old")
    case True
    then have "(take n value_new @ drop n value_old)[n := value_new ! n]
        = take n value_new @ (value_new ! n # drop (Suc n) value_old)"
      using len by (simp add: list_update_append Cons_nth_drop_Suc [symmetric])
    then show ?thesis
      unfolding step using True lt by (simp add: merge_step_def take_Suc_conv_app_nth)
  next
    case False
    then show ?thesis
      unfolding step using lt by (simp add: merge_step_def take_Suc_conv_app_nth)
  qed
qed

lemma merge_positional_eq:
  "merge_positional value_old value_new = value_new @ drop (length value_new) value_old"
  by (simp add: merge_positional_def merge_positional_prefix)

lemma update_item_other:
  "k \<noteq> key \<Longrightarrow> map_of (update_item base key v allow) k = map_of base k"
  by (simp add: update_item_def update_conv' split: option.splits)

lemma update_item_locked:
  "map_of base k = Some (Mark m) \<Longrightarrow> m = SKIP \<or> m = DELETE \<Longrightarrow>
   update_item base k v allow = base"
  by (auto simp: update_item_def tag_iswritable_def)

lemma update_item_keeps_locked:
  assumes "map_of base k = Some (Mark m)" and "m = SKIP \<or> m = DELETE"
  shows "map_of (update_item base key v allow) k = Some (Mark m)"
proof (cases "k = key")
  case True
  then show ?thesis using assms update_item_locked [of base k m v allow] by simp
next
  case False
  then show ?thesis using assms by (simp add: update_item_other)
qed

lemma update_item_alt:
  "update_item base key value_new allow =
     (case map_of base key of
        Some value_cur \<Rightarrow>
          if value_cur \<noteq> Mark SKIP \<and> value_cur \<noteq> Mark DELETE
          then AList.update key (new_value value_cur value_new) base else base
      | None \<Rightarrow> if allow \<or> prefix ''Extra:'' key then AList.update key value_new base else base)"
  by (simp add: update_item_def tag_iswritable_def new_value_def split: option.splits)

lemma update_fix: "AList.update k x al = al \<longleftrightarrow> map_of al k = Some x"
proof
  assume "AList.update k x al = al"
  then have "map_of al k = map_of (AList.update k x al) k" by simp
  then show "map_of al k = Some x" by (simp add: update_conv')
next
  assume "map_of al k = Some x"
  then show "AList.update k x al = al" by (rule update_triv)
qed

lemma update_item_fix:
  "update_item base key value_new allow = base \<longleftrightarrow> settled (map_of base key) key value_new allow"
  by (auto simp: update_item_alt settled_def update_fix split: option.splits)

lemma new_value_idem: "new_value (new_value value_cur value_new) value_new = new_value value_cur value_new"
  by (cases value_cur; cases value_new) (simp_all add: new_value_def merge_positional_eq)

lemma new_value_self: "new_value value_new value_new = value_new"
  by (cases value_new) (simp_all add: new_value_def merge_positional_eq)

lemma map_of_update_item_same:
  "map_of (update_item base key value_new allow) key =
     (case map_of base key of
        Some value_cur \<Rightarrow>
          if value_cur \<noteq> Mark SKIP \<and> value_cur \<noteq> Mark DELETE
          then Some (new_value value_cur value_new) else Some value_cur
      | None \<Rightarrow> if allow \<or> prefix ''Extra:'' key then Some value_new else None)"
  by (simp add: update_item_alt update_conv' split: option.splits)

lemma settled_after_update_item:
  "settled (map_of (update_item base key value_new allow) key) key value_new allow"
  by (auto simp: map_of_update_item_same settled_def new_value_idem new_value_self split: option.splits)

lemma metadata_update_other:
  "k \<notin> fst ` set update \<Longrightarrow> map_of (metadata_update base update allow) k = map_of base k"
  by (induction update arbitrary: base) (auto simp: update_item_other)

lemma metadata_update_fix:
  "(\<And>k v. (k, v) \<in> set update \<Longrightarrow> settled (map_of base k) k v allow) \<Longrightarrow>
   metadata_update base update allow = base"
proof (induction update)
  case Nil
  then show ?case by simp
next
  case (Cons kv rest)
  obtain k v where kv: "kv = (k, v)" by (cases kv)
  have "update_item base k v allow = base"
    using Cons.prems [of k v] kv by (simp add: update_item_fix)
  then show ?case using Cons kv by simp
qed

lemma metadata_update_settles:
  "distinct (map fst update) \<Longrightarrow> (k, v) \<in> set update \<Longrightarrow>
   settled (map_of (metadata_update base update allow) k) k v allow"
proof (induction update arbitrary: base)
  case Nil
  then show ?case by simp
next
  case (Cons kv rest)
  obtain k' v' where kv: "kv = (k', v')" by (cases kv)
  show ?case
  proof (cases "(k, v) = (k', v')")
    case True
    then have "k \<notin> fst ` set rest" using Cons.prems(1) kv by auto
    then have "map_of (metadata_update (update_item base k v allow) rest allow) k
        = map_of (update_item base k v allow) k"
      by (rule metadata_update_other)
    then show ?thesis using True kv by (simp add: settled_after_update_item)
  next
    case False
    then have "(k, v) \<in> set rest" using Cons.prems(2) kv by auto
    then show ?thesis using Cons.IH Cons.prems(1) kv by simp
  qed
qed

lemma metadata_update_idem:
  "distinct (map fst update) \<Longrightarrow>
   metadata_update (metadata_update base update allow) update allow = metadata_update base update allow"
  by (rule metadata_update_fix) (rule metadata_update_settles)

lemma metadata_update_value:
  "distinct (map fst update) \<Longrightarrow> (k, v) \<in> set update \<Longrightarrow>
   map_of (metadata_update base update allow) k = map_of (update_item base k v allow) k"
proof (induction update arbitrary: base)
  case Nil
  then show ?case by simp
next
  case (Cons kv rest)
  obtain k' v' where kv: "kv = (k', v')" by (cases kv)
  show ?case
  proof (cases "(k, v) = (k', v')")
    case True
    then have "k \<notin> fst ` set rest" using Cons.prems(1) kv by auto
    then have "map_of (metadata_update (update_item base k v allow) rest allow) k
        = map_of (update_item base k v allow) k"
      by (rule metadata_update_other)
    then show ?thesis using True kv by simp
  next
    case False
    then have mem: "(k, v) \<in> set rest" using Cons.prems(2) kv by auto
    then have ne: "k \<noteq> k'" using Cons.prems(1) kv by force
    have "map_of (metadata_update (update_item base k' v' allow) rest allow) k
        = map_of (update_item (update_item base k' v' allow) k v allow) k"
      using Cons.IH mem Cons.prems(1) by simp
    also have "\<dots> = map_of (update_item base k v allow) k"
      using ne by (simp add: map_of_update_item_same update_item_other)
    finally show ?thesis using kv by simp
  qed
qed

text \<open>
  C5. A tag whose current value is the SKIP marker, or the DELETE marker, keeps that
  value through \<open>metadata_update\<close>, for every increment and both values of
  \<open>allow_new_tags\<close>.
\<close>

theorem metadata_update_keeps_skip_delete:
  "map_of base tag = Some (Mark m) \<Longrightarrow> m = SKIP \<or> m = DELETE \<Longrightarrow>
   map_of (metadata_update base update allow_new_tags) tag = Some (Mark m)"
proof (induction update arbitrary: base)
  case Nil
  then show ?case by simp
next
  case (Cons kv rest)
  obtain key value_new where kv: "kv = (key, value_new)" by (cases kv)
  have "map_of (update_item base key value_new allow_new_tags) tag = Some (Mark m)"
    using Cons.prems by (rule update_item_keeps_locked)
  then show ?case
    using Cons.IH Cons.prems(2) kv by simp
qed

theorem metadata_update_keeps_skip_delete_witness:
  "map_of (metadata_update
      [(''WhiteBalance'', Mark SKIP), (''MakerNotes:All'', Mark DELETE), (''Artist'', Lit (AStr ''''))]
      [(''WhiteBalance'', Lit (AStr ''Manual'')), (''Artist'', Lit (AStr ''A'')),
       (''MakerNotes:All'', (PyList [AInt 1] :: int tagval))] True) ''WhiteBalance''
     = Some (Mark SKIP)
   \<and> map_of (metadata_update
      [(''WhiteBalance'', Mark SKIP), (''MakerNotes:All'', Mark DELETE), (''Artist'', Lit (AStr ''''))]
      [(''WhiteBalance'', Lit (AStr ''Manual'')), (''Artist'', Lit (AStr ''A'')),
       (''MakerNotes:All'', (PyList [AInt 1] :: int tagval))] False) ''MakerNotes:All''
     = Some (Mark DELETE)"
  using metadata_update_keeps_skip_delete
      [of "[(''WhiteBalance'', Mark SKIP), (''MakerNotes:All'', Mark DELETE), (''Artist'', Lit (AStr ''''))]"
          "''WhiteBalance''" SKIP
          "[(''WhiteBalance'', Lit (AStr ''Manual'')), (''Artist'', Lit (AStr ''A'')),
            (''MakerNotes:All'', (PyList [AInt 1] :: int tagval))]" True]
    metadata_update_keeps_skip_delete
      [of "[(''WhiteBalance'', Mark SKIP), (''MakerNotes:All'', Mark DELETE), (''Artist'', Lit (AStr ''''))]"
          "''MakerNotes:All''" DELETE
          "[(''WhiteBalance'', Lit (AStr ''Manual'')), (''Artist'', Lit (AStr ''A'')),
            (''MakerNotes:All'', (PyList [AInt 1] :: int tagval))]" False]
  by simp

text \<open>
  C6. Applying \<open>metadata_update\<close> twice with the same increment gives the same store as
  applying it once (for every tag, list-valued or not; the keys of the increment are
  distinct, as the keys of a Python dict are). When the base and the increment both hold a
  list or tuple at a key, the stored value has the container kind of the base, its length
  is the larger of the two lengths, the increment's elements sit at their indices and the
  base's elements remain beyond them.
\<close>

theorem metadata_update_idempotent_positional:
  "(distinct (map fst update) \<longrightarrow>
      metadata_update (metadata_update base update allow_new_tags) update allow_new_tags
        = metadata_update base update allow_new_tags)
   \<and> (distinct (map fst update) \<and> (key, value_new) \<in> set update
        \<and> map_of base key = Some value_cur
        \<and> seq_items value_cur = Some old_items \<and> seq_items value_new = Some new_items \<longrightarrow>
      (\<exists>merged.
          map_of (metadata_update base update allow_new_tags) key
            = Some (case value_cur of PyTuple _ \<Rightarrow> PyTuple merged | _ \<Rightarrow> PyList merged)
        \<and> length merged = max (length old_items) (length new_items)
        \<and> (\<forall>i < length new_items. merged ! i = new_items ! i)
        \<and> (\<forall>i. length new_items \<le> i \<and> i < length old_items \<longrightarrow> merged ! i = old_items ! i)))"
proof (intro conjI impI)
  assume "distinct (map fst update)"
  then show "metadata_update (metadata_update base update allow_new_tags) update allow_new_tags
        = metadata_update base update allow_new_tags"
    by (rule metadata_update_idem)
next
  assume a: "distinct (map fst update) \<and> (key, value_new) \<in> set update
        \<and> map_of base key = Some value_cur
        \<and> seq_items value_cur = Some old_items \<and> seq_items value_new = Some new_items"
  let ?merged = "new_items @ drop (length new_items) old_items"
  have cur: "value_cur \<noteq> Mark SKIP \<and> value_cur \<noteq> Mark DELETE"
    using a by (cases value_cur) auto
  have "map_of (metadata_update base update allow_new_tags) key
      = map_of (update_item base key value_new allow_new_tags) key"
    using a by (simp add: metadata_update_value)
  also have "\<dots> = Some (same_kind value_cur ?merged)"
    using a cur by (simp add: map_of_update_item_same new_value_def merge_positional_eq)
  also have "same_kind value_cur ?merged
      = (case value_cur of PyTuple _ \<Rightarrow> PyTuple ?merged | _ \<Rightarrow> PyList ?merged)"
    by (cases value_cur) simp_all
  finally have v: "map_of (metadata_update base update allow_new_tags) key
      = Some (case value_cur of PyTuple _ \<Rightarrow> PyTuple ?merged | _ \<Rightarrow> PyList ?merged)" .
  have l: "length ?merged = max (length old_items) (length new_items)" by auto
  have n: "\<forall>i < length new_items. ?merged ! i = new_items ! i"
    by (simp add: nth_append)
  have k: "\<forall>i. length new_items \<le> i \<and> i < length old_items \<longrightarrow> ?merged ! i = old_items ! i"
    by (auto simp: nth_append)
  show "\<exists>merged.
          map_of (metadata_update base update allow_new_tags) key
            = Some (case value_cur of PyTuple _ \<Rightarrow> PyTuple merged | _ \<Rightarrow> PyList merged)
        \<and> length merged = max (length old_items) (length new_items)
        \<and> (\<forall>i < length new_items. merged ! i = new_items ! i)
        \<and> (\<forall>i. length new_items \<le> i \<and> i < length old_items \<longrightarrow> merged ! i = old_items ! i)"
    using v l n k by blast
qed

theorem metadata_update_idempotent_positional_witness:
  "distinct (map fst [(''ImageTransform:Crop'', PyList [AInt 10, AInt 20]),
                      (''Make'', (Lit (AStr ''Zenit'') :: int tagval))])
   \<and> metadata_update
        (metadata_update
           [(''ImageTransform:Crop'', PyTuple [AInt 0, AInt 0, AInt 4096, AInt 2656]),
            (''Make'', Mark MANDATORY)]
           [(''ImageTransform:Crop'', PyList [AInt 10, AInt 20]),
            (''Make'', (Lit (AStr ''Zenit'') :: int tagval))] False)
        [(''ImageTransform:Crop'', PyList [AInt 10, AInt 20]),
         (''Make'', (Lit (AStr ''Zenit'') :: int tagval))] False
      = [(''ImageTransform:Crop'', PyTuple [AInt 10, AInt 20, AInt 4096, AInt 2656]),
         (''Make'', Lit (AStr ''Zenit''))]
   \<and> map_of (metadata_update
           [(''ImageTransform:Crop'', PyTuple [AInt 0, AInt 0, AInt 4096, AInt 2656]),
            (''Make'', Mark MANDATORY)]
           [(''ImageTransform:Crop'', PyList [AInt 10, AInt 20]),
            (''Make'', (Lit (AStr ''Zenit'') :: int tagval))] False) ''ImageTransform:Crop''
      = Some (PyTuple [AInt 10, AInt 20, AInt 4096, AInt 2656])"
  using metadata_update_idempotent_positional
    [where update = "[(''ImageTransform:Crop'', PyList [AInt 10, AInt 20]),
                      (''Make'', (Lit (AStr ''Zenit'') :: int tagval))]"
       and base = "[(''ImageTransform:Crop'', PyTuple [AInt 0, AInt 0, AInt 4096, AInt 2656]),
                    (''Make'', Mark MANDATORY)]"
       and allow_new_tags = False
       and key = "''ImageTransform:Crop''"
       and value_new = "PyList [AInt 10, AInt 20]"
       and value_cur = "PyTuple [AInt 0, AInt 0, AInt 4096, AInt 2656]"
       and old_items = "[AInt 0, AInt 0, AInt 4096, AInt 2656]"
       and new_items = "[AInt 10, AInt 20]"]
  by (simp add: update_item_def tag_iswritable_def merge_positional_eq)

subsection \<open>The flash predicate\<close>

lemma keys_enum: "fst ` set exif_flash_enum = {0,1,5,7,8,9,13,15,16,20,24,25,29,31,32,48,65,69,71,73,77,79,80,88,89,93,95}"
  by (simp add: exif_flash_enum_def)

lemma fired_int:
  "\<forall>n \<in> set exif_flash_enum_fired. exif_flash_fired (Lit (AInt n)) = Inr (Some True)"
  by (simp add: exif_flash_fired_def flash_code_def keys_enum exif_flash_enum_fired_def)

lemma notfired_int:
  "\<forall>n \<in> set exif_flash_enum_notfired \<union> set exif_flash_enum_notpresent. exif_flash_fired (Lit (AInt n)) = Inr (Some False)"
  by (simp add: exif_flash_fired_def flash_code_def keys_enum exif_flash_enum_fired_def exif_flash_enum_notfired_def exif_flash_enum_notpresent_def)

lemma none_int:
  "\<forall>n \<in> {13, 15, 80}. n \<in> fst ` set exif_flash_enum \<and> exif_flash_fired (Lit (AInt n)) = Inr None"
  by (simp add: exif_flash_fired_def flash_code_def keys_enum exif_flash_enum_fired_def exif_flash_enum_notfired_def exif_flash_enum_notpresent_def)

lemma flash_code_name_all:
  "list_all (\<lambda>kv. flash_code (Lit (AStr (snd kv)) :: 'f tagval) = Inr (fst kv)) exif_flash_enum"
  by code_simp

lemma flash_code_name:
  "\<forall>kv \<in> set exif_flash_enum. flash_code (Lit (AStr (snd kv)) :: 'f tagval) = Inr (fst kv)"
  using flash_code_name_all [where ?'f = 'f] by (simp only: list_all_iff)

lemma flash_fired_name:
  "\<forall>kv \<in> set exif_flash_enum.
     exif_flash_fired (Lit (AStr (snd kv)) :: 'f tagval) = exif_flash_fired (Lit (AInt (fst kv)) :: 'f tagval)"
proof
  fix kv assume kv: "kv \<in> set exif_flash_enum"
  then have "flash_code (Lit (AStr (snd kv)) :: 'f tagval) = Inr (fst kv)"
    using flash_code_name by blast
  moreover have "flash_code (Lit (AInt (fst kv)) :: 'f tagval) = Inr (fst kv)"
    using kv by (simp add: flash_code_def)
  ultimately show "exif_flash_fired (Lit (AStr (snd kv)) :: 'f tagval)
      = exif_flash_fired (Lit (AInt (fst kv)) :: 'f tagval)"
    by (simp add: exif_flash_fired_def)
qed

lemma flash_unknown_int:
  "n \<notin> fst ` set exif_flash_enum \<Longrightarrow> \<exists>msg. exif_flash_fired (Lit (AInt n)) = Inl (ValueError msg)"
  by (simp add: exif_flash_fired_def flash_code_def)

lemma flash_unknown_str:
  "s \<notin> snd ` set exif_flash_enum \<Longrightarrow> \<exists>msg. exif_flash_fired (Lit (AStr s)) = Inl (ValueError msg)"
proof -
  assume "s \<notin> snd ` set exif_flash_enum"
  then have "find (\<lambda>kv. snd kv = s) exif_flash_enum = None"
    by (force simp: find_None_iff)
  then show ?thesis by (simp add: exif_flash_fired_def flash_code_def)
qed

lemma flash_other_type:
  "(\<nexists>n. v = Lit (AInt n)) \<and> (\<nexists>b. v = Lit (ABool b)) \<and> (\<nexists>s. v = Lit (AStr s)) \<Longrightarrow>
   \<exists>msg. exif_flash_fired v = Inl (ValueError msg)"
  by (auto simp: exif_flash_fired_def flash_code_def split: tagval.splits atom.splits)

lemma map_of_set_if_writable:
  "map_of (set_if_writable t v md) k =
     (if k = t \<and> tag_iswritable t md then Some v else map_of md k)"
  by (simp add: set_if_writable_def update_conv')

lemma tag_iswritable_set_other:
  "k \<noteq> t \<Longrightarrow> tag_iswritable k (set_if_writable t v md) = tag_iswritable k md"
  by (simp add: tag_iswritable_def map_of_set_if_writable)

lemma conditional_unfired:
  assumes make: "map_of metadata ''Make'' = Some (Lit (AStr ''Panasonic''))"
    and model: "map_of metadata ''Model'' = Some (Lit (AStr ''C-D325EF''))
                \<or> map_of metadata ''Model'' = Some (Lit (AStr ''C-325EF''))"
    and flash: "map_of metadata ''EXIF:Flash'' = Some v"
    and v: "exif_flash_fired v = Inr None"
    and w: "tag_iswritable ''FNumber'' metadata"
  shows "\<exists>md'. metadata_update_conditional fo metadata = Inr md'
           \<and> map_of md' ''FNumber'' = Some (Lit (AFloat (float_lit fo ''9.0'')))"
proof -
  have nm: "\<not> is_marker v"
    using v by (cases v) (simp_all add: exif_flash_fired_def flash_code_def)
  have ft: "flash_truthy (set_if_writable ''ShutterSpeedValue'' (Lit (AStr ''1/130''))
             (set_if_writable ''ExposureTime'' (Lit (AStr ''1/130'')) metadata)) = Inr False"
    using flash v by (simp add: flash_truthy_def map_of_set_if_writable)
  show ?thesis
    using make model flash nm ft w
    by (simp add: metadata_update_conditional_def Let_def map_of_set_if_writable
        tag_iswritable_set_other)
qed

text \<open>
  C10. \<open>exif_flash_fired\<close> raises ValueError for an int that is no key of the flash
  enumeration, for a string that is no display name of it, and for a value of any other
  type; it returns True for the codes of the fired set and False for the codes of the
  not-fired and no-flash-function sets, given as the code or as the display name; for the
  codes 13, 15 and 80, which are keys of the enumeration, it returns \<open>None\<close>. The
  device rule of \<open>metadata_update_conditional\<close> then takes the not-fired aperture
  constant 9.0 for a store whose flash tag holds one of these three codes.
\<close>

theorem exif_flash_fired_falls_through:
  "(\<forall>n. n \<notin> fst ` set exif_flash_enum \<longrightarrow>
        (\<exists>msg. exif_flash_fired (Lit (AInt n) :: 'f tagval) = Inl (ValueError msg)))
   \<and> (\<forall>s. s \<notin> snd ` set exif_flash_enum \<longrightarrow>
        (\<exists>msg. exif_flash_fired (Lit (AStr s) :: 'f tagval) = Inl (ValueError msg)))
   \<and> (\<forall>v :: 'f tagval. (\<nexists>n. v = Lit (AInt n)) \<and> (\<nexists>b. v = Lit (ABool b)) \<and> (\<nexists>s. v = Lit (AStr s)) \<longrightarrow>
        (\<exists>msg. exif_flash_fired v = Inl (ValueError msg)))
   \<and> (\<forall>kv \<in> set exif_flash_enum. fst kv \<in> set exif_flash_enum_fired \<longrightarrow>
        exif_flash_fired (Lit (AInt (fst kv)) :: 'f tagval) = Inr (Some True)
        \<and> exif_flash_fired (Lit (AStr (snd kv)) :: 'f tagval) = Inr (Some True))
   \<and> (\<forall>kv \<in> set exif_flash_enum.
        fst kv \<in> set exif_flash_enum_notfired \<union> set exif_flash_enum_notpresent \<longrightarrow>
        exif_flash_fired (Lit (AInt (fst kv)) :: 'f tagval) = Inr (Some False)
        \<and> exif_flash_fired (Lit (AStr (snd kv)) :: 'f tagval) = Inr (Some False))
   \<and> (\<forall>kv \<in> set exif_flash_enum. fst kv \<in> {13, 15, 80} \<longrightarrow>
        exif_flash_fired (Lit (AInt (fst kv)) :: 'f tagval) = Inr None
        \<and> exif_flash_fired (Lit (AStr (snd kv)) :: 'f tagval) = Inr None)
   \<and> {13, 15, 80} \<subseteq> fst ` set exif_flash_enum
   \<and> (\<forall>(metadata :: 'f store) kv fo.
        map_of metadata ''Make'' = Some (Lit (AStr ''Panasonic''))
        \<and> (map_of metadata ''Model'' = Some (Lit (AStr ''C-D325EF''))
           \<or> map_of metadata ''Model'' = Some (Lit (AStr ''C-325EF'')))
        \<and> kv \<in> set exif_flash_enum \<and> fst kv \<in> {13, 15, 80}
        \<and> (map_of metadata ''EXIF:Flash'' = Some (Lit (AInt (fst kv)))
           \<or> map_of metadata ''EXIF:Flash'' = Some (Lit (AStr (snd kv))))
        \<and> tag_iswritable ''FNumber'' metadata \<longrightarrow>
        (\<exists>md'. metadata_update_conditional fo metadata = Inr md'
           \<and> map_of md' ''FNumber'' = Some (Lit (AFloat (float_lit fo ''9.0'')))))"
proof -
  have none: "\<forall>kv \<in> set exif_flash_enum. fst kv \<in> {13, 15, 80} \<longrightarrow>
        exif_flash_fired (Lit (AInt (fst kv)) :: 'f tagval) = Inr None
        \<and> exif_flash_fired (Lit (AStr (snd kv)) :: 'f tagval) = Inr None"
    using none_int [where ?'a = 'f] flash_fired_name [where ?'f = 'f] by auto
  have rule: "\<exists>md'. metadata_update_conditional fo metadata = Inr md'
           \<and> map_of md' ''FNumber'' = Some (Lit (AFloat (float_lit fo ''9.0'')))"
    if hyp: "map_of metadata ''Make'' = Some (Lit (AStr ''Panasonic''))
        \<and> (map_of metadata ''Model'' = Some (Lit (AStr ''C-D325EF''))
           \<or> map_of metadata ''Model'' = Some (Lit (AStr ''C-325EF'')))
        \<and> kv \<in> set exif_flash_enum \<and> fst kv \<in> {13, 15, 80}
        \<and> (map_of metadata ''EXIF:Flash'' = Some (Lit (AInt (fst kv)))
           \<or> map_of metadata ''EXIF:Flash'' = Some (Lit (AStr (snd kv))))
        \<and> tag_iswritable ''FNumber'' metadata"
    for metadata :: "'f store" and kv fo
  proof -
    obtain v where "map_of metadata ''EXIF:Flash'' = Some v" and "exif_flash_fired v = Inr None"
      using hyp none by blast
    then show ?thesis using hyp conditional_unfired by blast
  qed
  show ?thesis
    apply (intro conjI allI impI)
    subgoal by (rule flash_unknown_int)
    subgoal by (rule flash_unknown_str)
    subgoal by (rule flash_other_type)
    subgoal using fired_int [where ?'a = 'f] flash_fired_name [where ?'f = 'f] by auto
    subgoal using notfired_int [where ?'a = 'f] flash_fired_name [where ?'f = 'f] by auto
    subgoal using none by blast
    subgoal by (simp add: keys_enum)
    subgoal for metadata kv fo by (rule rule)
    done
qed

theorem exif_flash_fired_falls_through_witness:
  "13 \<in> fst ` set exif_flash_enum
   \<and> exif_flash_fired (Lit (AInt 13) :: int tagval) = Inr None
   \<and> exif_flash_fired (Lit (AInt 2) :: int tagval) = Inl (ValueError ''Unknown EXIF Flash value'')
   \<and> exif_flash_fired (Lit (AInt 9) :: int tagval) = Inr (Some True)
   \<and> exif_flash_fired (Lit (AInt 24) :: int tagval) = Inr (Some False)
   \<and> (\<exists>md'. metadata_update_conditional
          int_ops
          [(''Make'', Lit (AStr ''Panasonic'')), (''Model'', Lit (AStr ''C-325EF'')),
           (''EXIF:Flash'', Lit (AStr ''On, Return not detected'')),
           (''FNumber'', (Mark OPTIONAL :: int tagval))] = Inr md'
        \<and> map_of md' ''FNumber'' = Some (Lit (AFloat (float_lit int_ops ''9.0''))))"
proof -
  let ?fo = "int_ops"
  let ?md = "[(''Make'', Lit (AStr ''Panasonic'')), (''Model'', Lit (AStr ''C-325EF'')),
           (''EXIF:Flash'', Lit (AStr ''On, Return not detected'')),
           (''FNumber'', (Mark OPTIONAL :: int tagval))]"
  note t = exif_flash_fired_falls_through [where ?'f = int]
  have k: "(13, ''On, Return not detected'') \<in> set exif_flash_enum"
    by (simp add: exif_flash_enum_def)
  have a: "13 \<in> fst ` set exif_flash_enum" using t by blast
  have b: "exif_flash_fired (Lit (AInt 13) :: int tagval) = Inr None"
    using t k by fastforce
  have c: "exif_flash_fired (Lit (AInt 2) :: int tagval) = Inl (ValueError ''Unknown EXIF Flash value'')"
    by (simp add: exif_flash_fired_def flash_code_def keys_enum)
  have d: "exif_flash_fired (Lit (AInt 9) :: int tagval) = Inr (Some True)"
    by (simp add: exif_flash_fired_def flash_code_def keys_enum exif_flash_enum_fired_def)
  have e: "exif_flash_fired (Lit (AInt 24) :: int tagval) = Inr (Some False)"
    by (simp add: exif_flash_fired_def flash_code_def keys_enum exif_flash_enum_fired_def
        exif_flash_enum_notfired_def)
  have pre: "map_of ?md ''Make'' = Some (Lit (AStr ''Panasonic''))
        \<and> (map_of ?md ''Model'' = Some (Lit (AStr ''C-D325EF''))
           \<or> map_of ?md ''Model'' = Some (Lit (AStr ''C-325EF'')))
        \<and> (13, ''On, Return not detected'') \<in> set exif_flash_enum
        \<and> fst (13, ''On, Return not detected'') \<in> {13, 15, 80}
        \<and> (map_of ?md ''EXIF:Flash'' = Some (Lit (AInt (fst (13, ''On, Return not detected''))))
           \<or> map_of ?md ''EXIF:Flash'' = Some (Lit (AStr (snd (13, ''On, Return not detected'')))))
        \<and> tag_iswritable ''FNumber'' ?md"
    using k by (simp add: tag_iswritable_def)
  have f: "\<exists>md'. metadata_update_conditional ?fo ?md = Inr md'
        \<and> map_of md' ''FNumber'' = Some (Lit (AFloat (float_lit ?fo ''9.0'')))"
    using t pre by blast
  show ?thesis using a b c d e f by simp
qed

subsection \<open>The geometric transform\<close>

lemma crop_slice_full:
  "wf_image img \<Longrightarrow> crop_slice img 0 (shape0 img) 0 (shape1 img) = img"
proof -
  assume wf: "wf_image img"
  then have "map (\<lambda>row. take (shape1 img) (drop 0 row)) (pixels img) = pixels img"
    by (simp add: wf_image_def list_all_iff map_idI)
  then show ?thesis using wf by (simp add: crop_slice_def wf_image_def)
qed

text \<open>
  C7, as the code has it. A crop width of 0 is replaced by the full width of the raster
  and a crop height of 0 by its full height, whatever the offsets are; so with a positive
  left (top) offset and width (height) 0 the transform raises ValueError. With crop
  (0,0,0,0), no rotation and no flips, a raster of positive height and width is returned
  as it is.
\<close>

theorem image_transform_zero_is_full_size:
  "image_transform img l t 0 h r fh fv = image_transform img l t (int (shape1 img)) h r fh fv
   \<and> image_transform img l t w 0 r fh fv = image_transform img l t w (int (shape0 img)) r fh fv
   \<and> (0 < l \<longrightarrow> (\<exists>msg. image_transform img l t 0 h r fh fv = Inl (ValueError msg)))
   \<and> (0 < t \<longrightarrow> (\<exists>msg. image_transform img l t w 0 r fh fv = Inl (ValueError msg)))
   \<and> (wf_image img \<and> 0 < shape0 img \<and> 0 < shape1 img \<longrightarrow>
        image_transform img 0 0 0 0 None False False = Inr img
        \<and> image_transform img 0 0 0 0 (Some 0) False False = Inr img)"
proof (intro conjI impI)
  show "image_transform img l t 0 h r fh fv = image_transform img l t (int (shape1 img)) h r fh fv"
    by (simp add: image_transform_def)
  show "image_transform img l t w 0 r fh fv = image_transform img l t w (int (shape0 img)) r fh fv"
    by (simp add: image_transform_def)
  show "\<exists>msg. image_transform img l t 0 h r fh fv = Inl (ValueError msg)" if "0 < l"
    using that by (simp add: image_transform_def Let_def)
  show "\<exists>msg. image_transform img l t w 0 r fh fv = Inl (ValueError msg)" if "0 < t"
    using that by (simp add: image_transform_def Let_def)
next
  assume a: "wf_image img \<and> 0 < shape0 img \<and> 0 < shape1 img"
  then have c: "crop_slice img 0 (shape0 img) 0 (shape1 img) = img"
    by (simp add: crop_slice_full)
  show "image_transform img 0 0 0 0 None False False = Inr img"
    using a c by (simp add: image_transform_def Let_def)
  show "image_transform img 0 0 0 0 (Some 0) False False = Inr img"
    using a c by (simp add: image_transform_def Let_def)
qed

theorem image_transform_zero_is_full_size_witness:
  "wf_image \<lparr>shape0 = 2, shape1 = 2, pixels = [[1, 2], [3, 4 :: nat]]\<rparr>
   \<and> image_transform \<lparr>shape0 = 2, shape1 = 2, pixels = [[1, 2], [3, 4 :: nat]]\<rparr> 0 0 0 0 None False False
       = Inr \<lparr>shape0 = 2, shape1 = 2, pixels = [[1, 2], [3, 4]]\<rparr>
   \<and> (\<exists>msg. image_transform \<lparr>shape0 = 2, shape1 = 2, pixels = [[1, 2], [3, 4 :: nat]]\<rparr> 1 0 0 0 None False False
       = Inl (ValueError msg))"
  using image_transform_zero_is_full_size
    [where img = "\<lparr>shape0 = 2, shape1 = 2, pixels = [[1, 2], [3, 4 :: nat]]\<rparr>"
       and l = 1 and t = 0 and h = 0 and w = 0 and r = None and fh = False and fv = False]
  by (simp add: wf_image_def image_transform_def)

text \<open>
  The claim as the spec words it fails: on a 2 by 2 raster, left offset 1 with width 0
  does not give the remaining column but a ValueError.
\<close>

theorem image_transform_zero_width_counterexample:
  "image_transform \<lparr>shape0 = 2, shape1 = 2, pixels = [[1, 2], [3, 4 :: nat]]\<rparr> 1 0 0 0 None False False
     = Inl (ValueError ''Error! Crop region is outside image boundaries.'')
   \<and> image_transform \<lparr>shape0 = 2, shape1 = 2, pixels = [[1, 2], [3, 4 :: nat]]\<rparr> 1 0 0 0 None False False
     \<noteq> Inr \<lparr>shape0 = 2, shape1 = 1, pixels = [[2], [4]]\<rparr>"
  by (simp add: image_transform_def)

subsection \<open>Auto-fill\<close>

lemma ebind_Inr: "ebind m f = Inr y \<longleftrightarrow> (\<exists>x. m = Inr x \<and> f x = Inr y)"
  by (cases m) (simp_all add: ebind_def)

lemma document_name_keeps:
  "autofill_document_name po md = Inr m \<Longrightarrow> k \<noteq> ''DocumentName'' \<Longrightarrow> map_of m k = map_of md k"
  by (auto simp: autofill_document_name_def Let_def ebind_Inr update_conv' split: if_splits)

lemma modify_date_keeps:
  "k \<noteq> ''ModifyDate'' \<Longrightarrow> k \<noteq> ''OffsetTime'' \<Longrightarrow>
   map_of (autofill_modify_date env md) k = map_of md k"
  by (simp add: autofill_modify_date_def Let_def update_conv')

lemma map_of_autofill_copy:
  "map_of (autofill_copy dst src md) k =
     (if k = dst \<and> is_auto md dst
      then Some (case map_of md src of Some v \<Rightarrow> v | None \<Rightarrow> Mark SKIP)
      else map_of md k)"
  by (simp add: autofill_copy_def update_conv')

lemma dimension_keeps:
  "autofill_dimension t rd md = Inr m \<Longrightarrow> k \<noteq> t \<Longrightarrow> map_of m k = map_of md k"
  by (auto simp: autofill_dimension_def ebind_Inr update_conv' split: if_splits)

lemma create_date_keeps:
  "autofill_create_date env md = Inr m \<Longrightarrow> k \<noteq> ''CreateDate'' \<Longrightarrow> k \<noteq> ''OffsetTimeDigitized'' \<Longrightarrow>
   map_of m k = map_of md k"
  by (auto simp: autofill_create_date_def Let_def ebind_Inr update_conv'
      split: if_splits sum.splits error.splits)

lemma gps_ref_keeps:
  "autofill_gps_ref po rt t p n ni md = Inr m \<Longrightarrow> k \<noteq> rt \<Longrightarrow> k \<noteq> t \<Longrightarrow>
   map_of m k = map_of md k"
  by (auto simp: autofill_gps_ref_def ebind_Inr update_conv'
      split: if_splits tagval.splits atom.splits)

lemma gps_altitude_keeps:
  "autofill_gps_altitude po md = Inr m \<Longrightarrow> k \<noteq> ''GPSAltitudeRef'' \<Longrightarrow> k \<noteq> ''GPSAltitude'' \<Longrightarrow>
   map_of m k = map_of md k"
  by (auto simp: autofill_gps_altitude_def update_conv'
      split: if_splits tagval.splits atom.splits)

lemma gps_method_keeps:
  "k \<noteq> ''GPSProcessingMethod'' \<Longrightarrow> map_of (autofill_gps_method md) k = map_of md k"
  by (simp add: autofill_gps_method_def update_conv')

lemma autofill_exposure_tags:
  assumes run: "metadata_autofill env po md = Inr md'"
    and k: "k = ''ShutterSpeedValue'' \<or> k = ''ApertureValue''"
  shows "\<exists>m2. map_of md' k = map_of (autofill_aperture (autofill_shutter_speed m2)) k
           \<and> (\<forall>j. j = ''ShutterSpeedValue'' \<or> j = ''ApertureValue'' \<or> j = ''ExposureTime'' \<or> j = ''FNumber''
                 \<longrightarrow> map_of m2 j = map_of md j)"
proof -
  from run obtain m1 m5 m6 m7 m8 m9 m10 where
    s1: "autofill_document_name po md = Inr m1" and
    s5: "autofill_dimension ''ExifImageWidth'' (tiff_width env)
           (autofill_aperture (autofill_shutter_speed (autofill_modify_date env m1))) = Inr m5" and
    s6: "autofill_dimension ''ExifImageHeight'' (tiff_height env) m5 = Inr m6" and
    s7: "autofill_create_date env m6 = Inr m7" and
    s8: "autofill_gps_ref po ''GPSLatitudeRef'' ''GPSLatitude'' (CHR ''N'') (CHR ''S'') False m7 = Inr m8" and
    s9: "autofill_gps_ref po ''GPSLongitudeRef'' ''GPSLongitude'' (CHR ''E'') (CHR ''W'') True m8 = Inr m9" and
    s10: "autofill_gps_altitude po m9 = Inr m10" and
    s11: "md' = autofill_gps_method m10"
    unfolding metadata_autofill_def Let_def ebind_Inr by auto
  let ?m2 = "autofill_modify_date env m1"
  have "map_of md' k = map_of m10 k" using s11 k by (auto simp: gps_method_keeps)
  also have "\<dots> = map_of m9 k" using s10 k by (auto simp: gps_altitude_keeps)
  also have "\<dots> = map_of m8 k" using s9 k by (auto simp: gps_ref_keeps)
  also have "\<dots> = map_of m7 k" using s8 k by (auto simp: gps_ref_keeps)
  also have "\<dots> = map_of m6 k" using s7 k by (auto simp: create_date_keeps)
  also have "\<dots> = map_of m5 k" using s6 k by (auto simp: dimension_keeps)
  also have "\<dots> = map_of (autofill_aperture (autofill_shutter_speed ?m2)) k"
    using s5 k by (auto simp: dimension_keeps)
  finally have a: "map_of md' k = map_of (autofill_aperture (autofill_shutter_speed ?m2)) k" .
  have b: "map_of ?m2 j = map_of md j"
    if "j = ''ShutterSpeedValue'' \<or> j = ''ApertureValue'' \<or> j = ''ExposureTime'' \<or> j = ''FNumber''" for j
  proof -
    have "map_of ?m2 j = map_of m1 j" using that by (auto simp: modify_date_keeps)
    also have "\<dots> = map_of md j" using s1 that by (auto simp: document_name_keeps)
    finally show ?thesis .
  qed
  show ?thesis using a b by blast
qed

text \<open>
  C9, as the code has it. The step of auto-fill for a shutter-speed tag that holds AUTO
  sets it to whatever the exposure-time tag holds, a literal or a marker alike, and to
  SKIP only when the exposure-time key is absent; likewise the aperture-value tag from
  the f-number tag. When auto-fill as a whole returns, the two tags hold what these steps
  gave them from the store on entry.
\<close>

theorem metadata_autofill_copies_exposure:
  "(is_auto metadata ''ShutterSpeedValue'' \<longrightarrow>
      map_of (autofill_shutter_speed metadata) ''ShutterSpeedValue''
        = Some (case map_of metadata ''ExposureTime'' of Some v \<Rightarrow> v | None \<Rightarrow> Mark SKIP))
   \<and> (is_auto metadata ''ApertureValue'' \<longrightarrow>
      map_of (autofill_aperture metadata) ''ApertureValue''
        = Some (case map_of metadata ''FNumber'' of Some v \<Rightarrow> v | None \<Rightarrow> Mark SKIP))
   \<and> (metadata_autofill env po metadata = Inr metadata' \<longrightarrow>
      (is_auto metadata ''ShutterSpeedValue'' \<longrightarrow>
         map_of metadata' ''ShutterSpeedValue''
           = Some (case map_of metadata ''ExposureTime'' of Some v \<Rightarrow> v | None \<Rightarrow> Mark SKIP))
      \<and> (is_auto metadata ''ApertureValue'' \<longrightarrow>
         map_of metadata' ''ApertureValue''
           = Some (case map_of metadata ''FNumber'' of Some v \<Rightarrow> v | None \<Rightarrow> Mark SKIP)))"
proof (intro conjI)
  show "is_auto metadata ''ShutterSpeedValue'' \<longrightarrow>
      map_of (autofill_shutter_speed metadata) ''ShutterSpeedValue''
        = Some (case map_of metadata ''ExposureTime'' of Some v \<Rightarrow> v | None \<Rightarrow> Mark SKIP)"
    by (simp add: autofill_shutter_speed_def map_of_autofill_copy)
  show "is_auto metadata ''ApertureValue'' \<longrightarrow>
      map_of (autofill_aperture metadata) ''ApertureValue''
        = Some (case map_of metadata ''FNumber'' of Some v \<Rightarrow> v | None \<Rightarrow> Mark SKIP)"
    by (simp add: autofill_aperture_def map_of_autofill_copy)
  show "metadata_autofill env po metadata = Inr metadata' \<longrightarrow>
      (is_auto metadata ''ShutterSpeedValue'' \<longrightarrow>
         map_of metadata' ''ShutterSpeedValue''
           = Some (case map_of metadata ''ExposureTime'' of Some v \<Rightarrow> v | None \<Rightarrow> Mark SKIP))
      \<and> (is_auto metadata ''ApertureValue'' \<longrightarrow>
         map_of metadata' ''ApertureValue''
           = Some (case map_of metadata ''FNumber'' of Some v \<Rightarrow> v | None \<Rightarrow> Mark SKIP))"
  proof
    assume run: "metadata_autofill env po metadata = Inr metadata'"
    obtain m2 where
      s: "map_of metadata' ''ShutterSpeedValue''
            = map_of (autofill_aperture (autofill_shutter_speed m2)) ''ShutterSpeedValue''" and
      e: "\<forall>j. j = ''ShutterSpeedValue'' \<or> j = ''ApertureValue'' \<or> j = ''ExposureTime'' \<or> j = ''FNumber''
            \<longrightarrow> map_of m2 j = map_of metadata j"
      using autofill_exposure_tags [OF run, of "''ShutterSpeedValue''"] by blast
    obtain n2 where
      a: "map_of metadata' ''ApertureValue''
            = map_of (autofill_aperture (autofill_shutter_speed n2)) ''ApertureValue''" and
      f: "\<forall>j. j = ''ShutterSpeedValue'' \<or> j = ''ApertureValue'' \<or> j = ''ExposureTime'' \<or> j = ''FNumber''
            \<longrightarrow> map_of n2 j = map_of metadata j"
      using autofill_exposure_tags [OF run, of "''ApertureValue''"] by blast
    show "(is_auto metadata ''ShutterSpeedValue'' \<longrightarrow>
         map_of metadata' ''ShutterSpeedValue''
           = Some (case map_of metadata ''ExposureTime'' of Some v \<Rightarrow> v | None \<Rightarrow> Mark SKIP))
      \<and> (is_auto metadata ''ApertureValue'' \<longrightarrow>
         map_of metadata' ''ApertureValue''
           = Some (case map_of metadata ''FNumber'' of Some v \<Rightarrow> v | None \<Rightarrow> Mark SKIP))"
      using s e a f
      by (simp add: autofill_aperture_def autofill_shutter_speed_def map_of_autofill_copy is_auto_def)
  qed
qed

theorem metadata_autofill_copies_exposure_witness:
  "metadata_autofill
      example_env
      int_ops
      [(''ExposureTime'', Lit (AStr ''1/125'')), (''ShutterSpeedValue'', Mark AUTO),
       (''ApertureValue'', Mark AUTO)]
    = Inr [(''ExposureTime'', Lit (AStr ''1/125'')), (''ShutterSpeedValue'', Lit (AStr ''1/125'')),
           (''ApertureValue'', Mark SKIP)]
   \<and> is_auto [(''ExposureTime'', Lit (AStr ''1/125'')), (''ShutterSpeedValue'', Mark AUTO),
       (''ApertureValue'', (Mark AUTO :: int tagval))] ''ShutterSpeedValue''
   \<and> map_of [(''ExposureTime'', Lit (AStr ''1/125'')), (''ShutterSpeedValue'', Lit (AStr ''1/125'')),
           (''ApertureValue'', (Mark SKIP :: int tagval))] ''ShutterSpeedValue''
      = Some (Lit (AStr ''1/125''))"
proof -
  let ?env = "example_env"
  let ?po = "int_ops"
  let ?md = "[(''ExposureTime'', Lit (AStr ''1/125'')), (''ShutterSpeedValue'', Mark AUTO),
       (''ApertureValue'', (Mark AUTO :: int tagval))]"
  let ?md' = "[(''ExposureTime'', Lit (AStr ''1/125'')), (''ShutterSpeedValue'', Lit (AStr ''1/125'')),
           (''ApertureValue'', (Mark SKIP :: int tagval))]"
  have run: "metadata_autofill ?env ?po ?md = Inr ?md'"
    by code_simp
  have au: "is_auto ?md ''ShutterSpeedValue''" by (simp add: is_auto_def)
  show ?thesis
    using run au
      metadata_autofill_copies_exposure
        [where env = example_env and po = int_ops and metadata = ?md and metadata' = ?md']
    by simp
qed

text \<open>
  The claim as the spec words it fails when the exposure-time tag holds a marker: the
  compiled-in default is OPTIONAL, and auto-fill copies OPTIONAL, not SKIP.
\<close>

theorem metadata_autofill_shutter_counterexample:
  "metadata_autofill
      example_env
      int_ops
      [(''ExposureTime'', Mark OPTIONAL), (''ShutterSpeedValue'', Mark AUTO)]
    = Inr [(''ExposureTime'', Mark OPTIONAL), (''ShutterSpeedValue'', Mark OPTIONAL)]
   \<and> Mark OPTIONAL \<noteq> (Mark SKIP :: int tagval)"
  by code_simp

subsection \<open>Directory metadata files\<close>

lemma strip_marker_value: "strip (marker_value m @ [CHR 0x0A]) = marker_value m"
  by (cases m) (simp_all add: strip_def is_space_def)

lemma foldl_assign_marker_key:
  "map_of (AList.update key v (foldl (assign_marker key val) result ms)) key = Some v"
  by (simp add: update_conv')

text \<open>
  C2 fails on the code. For a file whose only line is \<open>key=\<close> followed by the display
  form of a marker, the increment maps the key to what \<open>ast.literal_eval\<close> makes of the
  display form, or to the display form as a string when \<open>literal_eval\<close> rejects it (as it
  does: no Python literal starts with \<open><\<close>); never to the marker. The marker assigned
  in the inner loop is overwritten, because the \<open>continue\<close> after it continues the loop
  over the markers and not the loop over the lines.
\<close>

theorem metadata_get_file_marker_overwritten:
  "metadata_get_file literal_eval True [''Make='' @ marker_value m @ [CHR 0x0A]] =
     (case literal_eval (marker_value m) of
        LitValue v \<Rightarrow> Some [(''Make'', of_literal v)]
      | LitFail \<Rightarrow> Some [(''Make'', Lit (AStr (marker_value m)))]
      | LitRaise \<Rightarrow> None)
   \<and> metadata_get_file literal_eval True [''Make='' @ marker_value m @ [CHR 0x0A]]
       \<noteq> Some [(''Make'', Mark m)]"
proof -
  let ?line = "''Make='' @ marker_value m @ [CHR 0x0A]"
  have notc: "\<not> prefix ''#'' (lstrip ?line) \<and> \<not> prefix '';'' (lstrip ?line)"
    by (simp add: lstrip_def is_space_def)
  have k: "strip (takeWhile (\<lambda>c. c \<noteq> CHR ''='') ?line) = ''Make''"
    by (simp add: strip_def is_space_def)
  have v: "strip (drop 1 (dropWhile (\<lambda>c. c \<noteq> CHR ''='') ?line)) = marker_value m"
    by (simp add: strip_marker_value)
  have upd: "AList.update ''Make'' x (foldl (assign_marker ''Make'' (marker_value m)) [] all_markers)
      = [(''Make'', x)]" for x :: "'a tagval"
    by (cases m) (simp_all add: all_markers_def assign_marker_def)
  have line: "get_file_line literal_eval True [] ?line =
     (case literal_eval (marker_value m) of
        LitValue v \<Rightarrow> Some [(''Make'', of_literal v)]
      | LitFail \<Rightarrow> Some [(''Make'', Lit (AStr (marker_value m)))]
      | LitRaise \<Rightarrow> None)"
    unfolding get_file_line_def Let_def using notc k v upd
    by (simp split: lit_result.splits)
  have eq: "metadata_get_file literal_eval True [?line] =
     (case literal_eval (marker_value m) of
        LitValue v \<Rightarrow> Some [(''Make'', of_literal v)]
      | LitFail \<Rightarrow> Some [(''Make'', Lit (AStr (marker_value m)))]
      | LitRaise \<Rightarrow> None)"
    unfolding metadata_get_file_def get_file_lines.simps line
    by (simp split: lit_result.splits)
  have ne: "of_literal v \<noteq> Mark m" for v :: "'a literal" by (cases v) simp_all
  show ?thesis
    unfolding eq using ne by (simp split: lit_result.splits)
qed

subsection \<open>The filename decoder\<close>

lemma rsplit_last_None:
  "sep \<noteq> [] \<Longrightarrow> rsplit_last sep s = None \<longleftrightarrow> \<not> contains sep s"
  by (induction s) (auto split: option.splits)

lemma contains_middle: "contains sep (l @ sep @ r)"
proof (induction l)
  case Nil
  have "prefix sep (sep @ r)" by simp
  then show ?case by (cases "sep @ r") auto
next
  case (Cons a l)
  then show ?case by simp
qed

lemma rsplit_last_middle:
  assumes "sep \<noteq> []" and "\<not> contains sep (tl (sep @ r))"
  shows "rsplit_last sep (l @ sep @ r) = Some (l, r)"
proof (induction l)
  case Nil
  obtain c cs where sep: "sep = c # cs" using assms(1) by (cases sep) auto
  have "rsplit_last sep (cs @ r) = None"
    using assms sep by (simp add: rsplit_last_None)
  then show ?case using sep by simp
next
  case (Cons a l)
  then show ?case by simp
qed

lemma decode_entries_empty: "decode_entries po st (split_chr (CHR ''_'') '''') = Inr st"
  by (simp add: decode_entry_def ebind_def)

text \<open>
  C3, as the code has it. A stem with no double underscore is the FileID as a whole and
  its metadata string is empty, so nothing is decoded from it. A stem with a double
  underscore is cut at the last one: the left part is the FileID (absent when empty) and
  the right part is the metadata string.
\<close>

theorem split_stem_last_double_underscore:
  "(\<not> contains ''__'' file_name \<longrightarrow>
      split_stem file_name = (Some file_name, '''')
      \<and> (stem pinfo = file_name \<longrightarrow>
           metadata_get_path po pinfo = build_result po pinfo (Some file_name) dec_init))
   \<and> (\<not> contains ''__'' (CHR ''_'' # r) \<longrightarrow>
      split_stem (l @ ''__'' @ r) = (if l = [] then None else Some l, r))"
proof (intro conjI impI)
  assume n: "\<not> contains ''__'' file_name"
  then show s: "split_stem file_name = (Some file_name, '''')"
    by (simp add: split_stem_def)
  assume "stem pinfo = file_name"
  then show "metadata_get_path po pinfo = build_result po pinfo (Some file_name) dec_init"
    using s decode_entries_empty [of po dec_init]
    by (simp add: metadata_get_path_def ebind_def)
next
  assume "\<not> contains ''__'' (CHR ''_'' # r)"
  then have "rsplit_last ''__'' (l @ ''__'' @ r) = Some (l, r)"
    using rsplit_last_middle [of "''__''" r l] by simp
  moreover have "contains ''__'' (l @ ''__'' @ r)" by (rule contains_middle)
  ultimately show "split_stem (l @ ''__'' @ r) = (if l = [] then None else Some l, r)"
    by (simp add: split_stem_def rsplit1_def)
qed

theorem split_stem_last_double_underscore_witness:
  "\<not> contains ''__'' ''F7-3''
   \<and> split_stem ''F7-3'' = (Some ''F7-3'', '''')
   \<and> \<not> contains ''__'' (CHR ''_'' # ''F7-3_S2-1'')
   \<and> split_stem ''a__b__F7-3_S2-1'' = (Some ''a__b'', ''F7-3_S2-1'')
   \<and> split_stem ''__F7-3_S2-1'' = (None, ''F7-3_S2-1'')"
proof -
  have a: "\<not> contains ''__'' ''F7-3''" by code_simp
  have b: "\<not> contains ''__'' (CHR ''_'' # ''F7-3_S2-1'')" by code_simp
  let ?po = "int_ops"
  let ?pinfo = "\<lparr>stem = ''F7-3'', suffix = ''.tif'', relpath = ''F7-3.tif'', reldir = ''.''\<rparr>"
  note t1 = split_stem_last_double_underscore
    [where file_name = "''F7-3''" and r = "''F7-3_S2-1''" and l = "''a__b''"
       and po = ?po and pinfo = ?pinfo]
  note t2 = split_stem_last_double_underscore
    [where file_name = "''F7-3''" and r = "''F7-3_S2-1''" and l = "''''"
       and po = ?po and pinfo = ?pinfo]
  show ?thesis using a b t1 t2 by simp
qed

text \<open>
  The claim as the spec words it fails on a stem with no double underscore: the stem
  is not the metadata string, it is the FileID, and the metadata string is empty.
\<close>

theorem split_stem_no_separator_counterexample:
  "split_stem ''F7-3'' = (Some ''F7-3'', '''') \<and> split_stem ''F7-3'' \<noteq> (None, ''F7-3'')"
  by code_simp

subsection \<open>The scan order of the decoder\<close>

lemma keeps_Inl [simp]: "keeps_description st (Inl e)"
  by (simp add: keeps_description_def)

lemma keeps_Inr [simp]:
  "keeps_description st (Inr st1) \<longleftrightarrow> image_description st1 = image_description st"
  by (simp add: keeps_description_def)

lemma keeps_ebind: "(\<And>x. keeps_description st (f x)) \<Longrightarrow> keeps_description st (ebind m f)"
  by (cases m) (simp_all add: ebind_def)

lemma keeps_F: "keeps_description st (decode_F st v)"
  unfolding decode_F_def by (rule keeps_ebind) (simp split: prod.split option.split)

lemma keeps_S: "keeps_description st (decode_S st v)"
  unfolding decode_S_def by (rule keeps_ebind) (simp split: prod.split option.split)

lemma keeps_N: "keeps_description st (decode_N st v)"
  unfolding decode_N_def by (simp add: keeps_ebind)

lemma keeps_C: "keeps_description st (decode_C st v)"
  unfolding decode_C_def by (simp add: keeps_ebind)

lemma keeps_R: "keeps_description st (decode_R st v)"
  unfolding decode_R_def Let_def by (simp add: keeps_ebind)

lemma keeps_Z: "keeps_description st (decode_Z st v)"
  unfolding decode_Z_def by simp

lemma keeps_T: "keeps_description st (decode_T po st v)"
  unfolding decode_T_def by (simp add: keeps_ebind)

lemma keeps_A: "keeps_description st (decode_A po st v)"
  unfolding decode_A_def by (simp add: keeps_ebind)

lemma keeps_I: "keeps_description st (decode_I st v)"
  unfolding decode_I_def by (simp add: keeps_ebind)

lemma keeps_X: "keeps_description st (decode_X st v)"
  unfolding decode_X_def by (simp add: keeps_ebind)

lemma keeps_O: "keeps_description st (decode_O st v)"
  unfolding decode_O_def by (simp add: keeps_ebind)

lemma keeps_L: "keeps_description st (decode_L st v)"
  unfolding decode_L_def by (simp add: keeps_ebind)

lemma keeps_M: "keeps_description st (decode_M st v)"
  unfolding decode_M_def Let_def by (simp split: list.split)

lemma keeps_D: "keeps_description st (decode_D st v)"
  unfolding decode_D_def Let_def by (simp add: keeps_ebind)

lemma keeps_G: "keeps_description st (decode_G po st v)"
  unfolding decode_G_def Let_def by (simp add: keeps_ebind)

lemma keeps_entry: "keeps_description st (decode_entry po st entry)"
  unfolding decode_entry_def
  by (simp add: keeps_F keeps_S keeps_N keeps_C keeps_R keeps_Z keeps_T keeps_A keeps_I
      keeps_X keeps_O keeps_L keeps_M keeps_D keeps_G)

lemma decode_entry_keeps:
  "decode_entry po st entry = Inr st' \<Longrightarrow> image_description st' = image_description st"
  using keeps_entry [of st po entry] by simp

lemma decode_entries_keep:
  "decode_entries po st entries = Inr st' \<Longrightarrow> image_description st' = image_description st"
proof (induction entries arbitrary: st)
  case Nil
  then show ?case by simp
next
  case (Cons entry rest)
  then obtain st1 where a: "decode_entry po st entry = Inr st1"
    and b: "decode_entries po st1 rest = Inr st'"
    by (auto simp: ebind_Inr)
  show ?case using Cons.IH [OF b] decode_entry_keeps [OF a] by simp
qed

lemma foldl_put_opt_None:
  "map_of result k = None \<Longrightarrow> \<forall>kv \<in> set kvs. fst kv = k \<longrightarrow> snd kv = None \<Longrightarrow>
   map_of (foldl put_opt result kvs) k = None"
proof (induction kvs arbitrary: result)
  case Nil
  then show ?case by simp
next
  case (Cons kv kvs)
  have "map_of (put_opt result kv) k = None"
    using Cons.prems by (cases "snd kv") (auto simp: put_opt_def update_conv')
  then show ?case using Cons by simp
qed

lemma result_entries_description:
  "image_description st = None \<Longrightarrow>
   \<forall>kv \<in> set (result_entries po pinfo file_id st fl ori dt off).
     fst kv = ''ImageDescription'' \<longrightarrow> snd kv = None"
  unfolding result_entries_def by simp

lemma build_result_no_description:
  assumes "image_description st = None" and "build_result po pinfo file_id st = Inr md"
  shows "map_of md ''ImageDescription'' = None"
proof -
  from assms(2) obtain fl ori dt off where
    md: "md = foldl put_opt [] (result_entries po pinfo file_id st fl ori dt off)"
    unfolding build_result_def ebind_Inr by blast
  have "map_of ([] :: 'a store) ''ImageDescription'' = None" by simp
  then show ?thesis
    unfolding md using result_entries_description [OF assms(1)]
    by (rule foldl_put_opt_None)
qed

lemma str2int_error: "str2int s = Inl e \<Longrightarrow> \<exists>msg. e = ValueError msg"
  by (auto simp: str2int_def split: if_splits option.splits)

text \<open>
  C8. A token whose first character is \<open>N\<close> is handled by the image-number rule: a
  ValueError when the payload is empty or no valid integer, and the image number
  otherwise. The later rule for \<open>N\<close>, the image description, is never reached: no token
  changes the description variable, it is still \<open>None\<close> after any scan that returns, and
  no increment that \<open>metadata_get_path\<close> returns has an ImageDescription key.
\<close>

theorem decode_entry_N_first_rule_wins:
  "decode_entry po st (CHR ''N'' # payload) =
     (if payload = [] then Inl (ValueError ''Error! Image number value not specified.'')
      else case str2int payload of
             Inl e \<Rightarrow> Inl e
           | Inr n \<Rightarrow> Inr (st\<lparr>image_number := Some n\<rparr>))
   \<and> (\<forall>e. str2int payload = Inl e \<longrightarrow> (\<exists>msg. e = ValueError msg))
   \<and> (\<forall>entry st'. decode_entry po st entry = Inr st' \<longrightarrow>
         image_description st' = image_description st)
   \<and> (\<forall>entries st'. decode_entries po dec_init entries = Inr st' \<longrightarrow>
         image_description st' = None)
   \<and> (\<forall>pinfo md. metadata_get_path po pinfo = Inr md \<longrightarrow> map_of md ''ImageDescription'' = None)"
proof (intro conjI allI impI)
  show "decode_entry po st (CHR ''N'' # payload) =
     (if payload = [] then Inl (ValueError ''Error! Image number value not specified.'')
      else case str2int payload of
             Inl e \<Rightarrow> Inl e
           | Inr n \<Rightarrow> Inr (st\<lparr>image_number := Some n\<rparr>))"
    by (simp add: decode_entry_def decode_N_def ebind_def)
next
  fix e assume "str2int payload = Inl e"
  then show "\<exists>msg. e = ValueError msg" by (rule str2int_error)
next
  fix entry st' assume "decode_entry po st entry = Inr st'"
  then show "image_description st' = image_description st" by (rule decode_entry_keeps)
next
  fix entries and st' :: "'a dec_state"
  assume "decode_entries po dec_init entries = Inr st'"
  then have "image_description st' = image_description (dec_init :: 'a dec_state)"
    by (rule decode_entries_keep)
  then show "image_description st' = None" by (simp add: dec_init_def)
next
  fix pinfo and md :: "'a store"
  assume "metadata_get_path po pinfo = Inr md"
  then obtain st' where a: "decode_entries po dec_init (split_chr (CHR ''_'') (snd (split_stem (stem pinfo)))) = Inr st'"
    and b: "build_result po pinfo (fst (split_stem (stem pinfo))) st' = Inr md"
    by (auto simp: metadata_get_path_def Let_def ebind_Inr)
  have "image_description st' = image_description (dec_init :: 'a dec_state)"
    using a by (rule decode_entries_keep)
  then have "image_description st' = None" by (simp add: dec_init_def)
  then show "map_of md ''ImageDescription'' = None"
    using b by (rule build_result_no_description)
qed

theorem decode_entry_N_first_rule_wins_witness:
  "decode_entry
      int_ops
      dec_init (CHR ''N'' # ''12'') = Inr (dec_init\<lparr>image_number := Some 12\<rparr>)
   \<and> image_description (dec_init\<lparr>image_number := Some 12\<rparr> :: int dec_state) = None
   \<and> decode_entry
      int_ops
      dec_init (CHR ''N'' # ''a walk'') = Inl (ValueError ''Cannot convert to integer'')
   \<and> decode_entry
      int_ops
      dec_init (CHR ''N'' # [CHR 0x1C, CHR ''5'']) = Inl (ValueError ''Cannot convert to integer'')
   \<and> metadata_get_path
      int_ops
      \<lparr>stem = ''r__N12'', suffix = ''.tif'', relpath = ''r__N12.tif'', reldir = ''.''\<rparr>
     = Inr [(''Extra:FileID'', Lit (AStr ''r'')), (''Extra:FileNameBase'', Lit (AStr ''r__N12'')),
            (''Extra:FileNameExtension'', Lit (AStr ''tif'')),
            (''Extra:FilePath'', Lit (AStr ''r__N12.tif'')),
            (''Extra:FileDirectory'', Lit (AStr ''.'')), (''ImageNumber'', Lit (AInt 12))]
   \<and> map_of [(''Extra:FileID'', Lit (AStr ''r'')), (''Extra:FileNameBase'', Lit (AStr ''r__N12'')),
            (''Extra:FileNameExtension'', Lit (AStr ''tif'')),
            (''Extra:FilePath'', Lit (AStr ''r__N12.tif'')),
            (''Extra:FileDirectory'', Lit (AStr ''.'')), (''ImageNumber'', (Lit (AInt 12) :: int tagval))]
        ''ImageDescription'' = None"
proof -
  let ?po = "int_ops"
  let ?pinfo = "\<lparr>stem = ''r__N12'', suffix = ''.tif'', relpath = ''r__N12.tif'', reldir = ''.''\<rparr>"
  let ?md = "[(''Extra:FileID'', Lit (AStr ''r'')), (''Extra:FileNameBase'', Lit (AStr ''r__N12'')),
            (''Extra:FileNameExtension'', Lit (AStr ''tif'')),
            (''Extra:FilePath'', Lit (AStr ''r__N12.tif'')),
            (''Extra:FileDirectory'', Lit (AStr ''.'')), (''ImageNumber'', (Lit (AInt 12) :: int tagval))]"
  note t = decode_entry_N_first_rule_wins [where po = ?po and st = dec_init and payload = "''12''"]
  have i: "str2int ''12'' = Inr 12" by code_simp
  have a: "decode_entry ?po dec_init (CHR ''N'' # ''12'') = Inr (dec_init\<lparr>image_number := Some 12\<rparr>)"
    using t i by simp
  have "\<forall>entry st'. decode_entry ?po dec_init entry = Inr st' \<longrightarrow>
         image_description st' = image_description (dec_init :: int dec_state)"
    using t by blast
  then have "image_description (dec_init\<lparr>image_number := Some 12\<rparr> :: int dec_state)
      = image_description (dec_init :: int dec_state)"
    using a by blast
  then have b: "image_description (dec_init\<lparr>image_number := Some 12\<rparr> :: int dec_state) = None"
    by (simp add: dec_init_def)
  have c: "decode_entry ?po dec_init (CHR ''N'' # ''a walk'') = Inl (ValueError ''Cannot convert to integer'')"
    by code_simp
  have c': "decode_entry ?po dec_init (CHR ''N'' # [CHR 0x1C, CHR ''5''])
      = Inl (ValueError ''Cannot convert to integer'')"
    by code_simp
  have d: "metadata_get_path ?po ?pinfo = Inr ?md" by code_simp
  have e: "map_of ?md ''ImageDescription'' = None"
    using t d by blast
  show ?thesis using a b c c' d e by simp
qed

subsection \<open>Emission and the end of process\_file\<close>

lemma emit_all_fails:
  "kv \<in> set metadata \<Longrightarrow> \<not> emits po ok kv \<Longrightarrow> \<exists>e. emit_all po ok metadata = Inl e"
proof (induction metadata)
  case Nil
  then show ?case by simp
next
  case (Cons a metadata)
  obtain k v where a: "a = (k, v)" by (cases a)
  show ?case
  proof (cases "emit_tag po ok k v")
    case (Inl e)
    then show ?thesis using a by (simp add: ebind_def)
  next
    case (Inr args)
    then have "kv \<in> set metadata" using Cons.prems a by (auto simp: emits_def)
    then obtain e where "emit_all po ok metadata = Inl e" using Cons by blast
    then show ?thesis using a Inr by (simp add: ebind_def)
  qed
qed

lemma emit_all_ok:
  "\<forall>kv \<in> set metadata. emits po ok kv \<Longrightarrow> \<exists>args. emit_all po ok metadata = Inr args"
proof (induction metadata)
  case Nil
  then show ?case by simp
next
  case (Cons a metadata)
  obtain k v where a: "a = (k, v)" by (cases a)
  obtain args where "emit_tag po ok k v = Inr args"
    using Cons.prems a by (cases "emit_tag po ok k v") (auto simp: emits_def)
  moreover obtain more_args where "emit_all po ok metadata = Inr more_args"
    using Cons by auto
  ultimately show ?case using a by (simp add: ebind_def)
qed

lemma mandatory_not_emitted: "\<not> emits po ok (k, Mark MANDATORY)"
  by (simp add: emits_def emit_tag_def)

lemma flatten_text: "is_text v \<Longrightarrow> \<exists>s. flatten_value po v = Lit (AStr s)"
  by (cases v rule: is_text.cases) (simp_all add: flatten_value_def)

lemma literal_emitted:
  assumes "\<not> is_marker v" and "k \<in> set datetime_tags \<longrightarrow> is_text v"
  shows "emits po ok (k, v)"
proof -
  have nm: "v \<noteq> Mark DELETE \<and> v \<noteq> Mark SKIP \<and> v \<noteq> Mark OPTIONAL \<and> v \<noteq> Mark MANDATORY"
    using assms(1) by auto
  show ?thesis
  proof (cases "k \<in> set datetime_tags")
    case True
    then obtain s where "flatten_value po v = Lit (AStr s)"
      using assms(2) flatten_text by blast
    then show ?thesis using nm True by (simp add: emits_def emit_tag_def Let_def)
  next
    case False
    then show ?thesis using nm by (simp add: emits_def emit_tag_def Let_def)
  qed
qed

lemma literal_not_mandatory_error:
  "\<not> is_marker v \<Longrightarrow>
   emit_tag po ok k v \<noteq> Inl (ValueError ''Error! Mandatory tag value not assigned.'')"
  by (auto simp: emit_tag_def Let_def split: tagval.splits atom.splits)

lemma set_update_distinct:
  "distinct (map fst al) \<Longrightarrow>
   set (AList.update k v al) \<subseteq> insert (k, v) {kv \<in> set al. fst kv \<noteq> k}"
proof (induction al)
  case Nil
  then show ?case by simp
next
  case (Cons a al)
  show ?case
  proof (cases "fst a = k")
    case True
    have "k \<notin> fst ` set al" using True Cons.prems by auto
    then have "\<forall>kv \<in> set al. fst kv \<noteq> k" by auto
    then show ?thesis using True by auto
  next
    case False
    then show ?thesis using Cons by auto
  qed
qed

lemma build_args_mandatory:
  "(k, Mark MANDATORY) \<in> set metadata \<Longrightarrow> \<exists>e. build_args po ok metadata output_path = Inl e"
proof -
  assume "(k, Mark MANDATORY) \<in> set metadata"
  then obtain e where "emit_all po ok metadata = Inl e"
    using emit_all_fails mandatory_not_emitted by blast
  then show ?thesis by (simp add: build_args_def ebind_def)
qed

lemma build_args_mandatory_not_Inr:
  "(k, Mark MANDATORY) \<in> set metadata \<Longrightarrow> build_args po ok metadata output_path \<noteq> Inr args"
  using build_args_mandatory [of k metadata po ok output_path] by auto

text \<open>
  C4, as the code has it. When some tag of the store reaching emission holds MANDATORY,
  building the arguments raises, so nothing is sent to the metadata tool. With that tag
  replaced by a literal the MANDATORY check no longer raises for it; the arguments are
  then built and passed on when every other tag gets through the loop body and the
  literal is a string, list or tuple in case the tag is one of the three datetime tags,
  whose values go through a regular-expression match. In \<open>process_file\<close> a MANDATORY
  tag among those left for emission makes the call raise, and its outcome does not
  depend on the metadata tool: the tool is not run.
\<close>

theorem mandatory_blocks_emission:
  "((k, Mark MANDATORY) \<in> set metadata \<longrightarrow>
      (\<exists>e. build_args po ok metadata output_path = Inl e))
   \<and> (\<not> is_marker v \<longrightarrow>
        emit_tag po ok k v \<noteq> Inl (ValueError ''Error! Mandatory tag value not assigned.''))
   \<and> (distinct (map fst metadata) \<and> (k, Mark MANDATORY) \<in> set metadata
        \<and> \<not> is_marker v \<and> (k \<in> set datetime_tags \<longrightarrow> is_text v)
        \<and> (\<forall>kv \<in> set metadata. fst kv \<noteq> k \<longrightarrow> emits po ok kv) \<longrightarrow>
      (\<exists>args. build_args po ok (AList.update k v metadata) output_path
                 = Inr ([''-E'', ''-overwrite_original''] @ args @ [output_path])))
   \<and> (metadata_autofill env po metadata0 = Inr filled
        \<and> (k, Mark MANDATORY) \<in> set (delete_keys_with_prefixes filled stripped_prefixes) \<longrightarrow>
      (\<exists>e. fst (process_file_finish env po fe files temp_path metadata0) = Inl e)
      \<and> (\<forall>tool. process_file_finish env po (fe\<lparr>run_tool := tool\<rparr>) files temp_path metadata0
                  = process_file_finish env po fe files temp_path metadata0))"
proof (intro conjI impI allI)
  assume "(k, Mark MANDATORY) \<in> set metadata"
  then obtain e where "emit_all po ok metadata = Inl e"
    using emit_all_fails mandatory_not_emitted by blast
  then show "\<exists>e. build_args po ok metadata output_path = Inl e"
    by (simp add: build_args_def ebind_def)
next
  assume "\<not> is_marker v"
  then show "emit_tag po ok k v \<noteq> Inl (ValueError ''Error! Mandatory tag value not assigned.'')"
    by (rule literal_not_mandatory_error)
next
  assume a: "distinct (map fst metadata) \<and> (k, Mark MANDATORY) \<in> set metadata
        \<and> \<not> is_marker v \<and> (k \<in> set datetime_tags \<longrightarrow> is_text v)
        \<and> (\<forall>kv \<in> set metadata. fst kv \<noteq> k \<longrightarrow> emits po ok kv)"
  then have new: "emits po ok (k, v)" by (simp add: literal_emitted)
  have "set (AList.update k v metadata) \<subseteq> insert (k, v) {kv \<in> set metadata. fst kv \<noteq> k}"
    using a by (simp add: set_update_distinct)
  then have "\<forall>kv \<in> set (AList.update k v metadata). emits po ok kv"
    using a new by auto
  then obtain args where "emit_all po ok (AList.update k v metadata) = Inr args"
    using emit_all_ok by blast
  then show "\<exists>args. build_args po ok (AList.update k v metadata) output_path
                 = Inr ([''-E'', ''-overwrite_original''] @ args @ [output_path])"
    by (simp add: build_args_def ebind_def)
next
  assume a: "metadata_autofill env po metadata0 = Inr filled
        \<and> (k, Mark MANDATORY) \<in> set (delete_keys_with_prefixes filled stripped_prefixes)"
  then show "\<exists>e. fst (process_file_finish env po fe files temp_path metadata0) = Inl e"
    by (auto simp: process_file_finish_def Let_def build_args_mandatory_not_Inr
        split: sum.splits option.splits)
next
  fix tool
  assume a: "metadata_autofill env po metadata0 = Inr filled
        \<and> (k, Mark MANDATORY) \<in> set (delete_keys_with_prefixes filled stripped_prefixes)"
  then show "process_file_finish env po (fe\<lparr>run_tool := tool\<rparr>) files temp_path metadata0
                  = process_file_finish env po fe files temp_path metadata0"
    by (auto simp: process_file_finish_def Let_def build_args_mandatory_not_Inr
        split: sum.splits option.splits)
qed

theorem mandatory_blocks_emission_witness:
  "distinct (map fst [(''ISO'', Lit (AInt 100)), (''Make'', (Mark MANDATORY :: int tagval))])
   \<and> build_args int_ops (strptime_ok example_finish)
        [(''ISO'', Lit (AInt 100)), (''Make'', Mark MANDATORY)] ''out/a.tif''
      = Inl (ValueError ''Error! Mandatory tag value not assigned.'')
   \<and> build_args int_ops (strptime_ok example_finish)
        (AList.update ''Make'' (Lit (AStr ''Zenit''))
           [(''ISO'', Lit (AInt 100)), (''Make'', Mark MANDATORY)]) ''out/a.tif''
      = Inr [''-E'', ''-overwrite_original'', ''-ISO=100'', ''-Make=Zenit'', ''out/a.tif'']"
proof -
  have a: "build_args int_ops (strptime_ok example_finish)
        [(''ISO'', Lit (AInt 100)), (''Make'', Mark MANDATORY)] ''out/a.tif''
      = Inl (ValueError ''Error! Mandatory tag value not assigned.'')"
    by code_simp
  have b: "build_args int_ops (strptime_ok example_finish)
        (AList.update ''Make'' (Lit (AStr ''Zenit''))
           [(''ISO'', Lit (AInt 100)), (''Make'', Mark MANDATORY)]) ''out/a.tif''
      = Inr [''-E'', ''-overwrite_original'', ''-ISO=100'', ''-Make=Zenit'', ''out/a.tif'']"
    by code_simp
  note t = mandatory_blocks_emission
    [where k = "''Make''" and v = "Lit (AStr ''Zenit'')" and po = int_ops
       and ok = "strptime_ok example_finish" and output_path = "''out/a.tif''"
       and metadata = "[(''ISO'', Lit (AInt 100)), (''Make'', Mark MANDATORY)]"
       and env = example_env and fe = example_finish and files = example_files
       and temp_path = "''tmp/a.tmp''" and filled = "[(''Make'', Mark MANDATORY)]"
       and ?metadata0.0 = "[(''Make'', Mark MANDATORY)]"]
  show ?thesis using a b t by simp
qed

text \<open>
  The claim as the spec words it fails for a literal that is no string at a datetime
  tag: with MANDATORY replaced by the int 2020 at DateTimeOriginal, the loop body raises
  TypeError at the regular-expression match and nothing is emitted.
\<close>

theorem mandatory_replaced_counterexample:
  "build_args int_ops (strptime_ok example_finish)
      [(''DateTimeOriginal'', Mark MANDATORY)] ''out/a.tif''
     = Inl (ValueError ''Error! Mandatory tag value not assigned.'')
   \<and> build_args int_ops (strptime_ok example_finish)
      (AList.update ''DateTimeOriginal'' (Lit (AInt 2020)) [(''DateTimeOriginal'', Mark MANDATORY)])
      ''out/a.tif''
     = Inl TypeError"
  by code_simp

text \<open>
  C1, as the code has it. When auto-fill or the rendering of the output path raises, the
  files are left as they were. Otherwise the staged file is moved from the temp path to
  the output path before the arguments are built and before the metadata tool runs: on
  every outcome the output path holds a file, the temp path holds none, and every other
  path is as it was. When building the arguments raises (a tag still MANDATORY), the
  call raises that exception and the output path holds the staged file as it was staged;
  when the tool has run, the output path holds the file as the tool left it, whether
  the tool succeeded or not.
\<close>

theorem process_file_moves_before_tagging:
  "(metadata_autofill env po metadata0 = Inl e \<longrightarrow>
      process_file_finish env po fe files temp_path metadata0 = (Inl e, files))
   \<and> (metadata_autofill env po metadata0 = Inr metadata \<and> resolve_output fe metadata = Inl e \<longrightarrow>
      process_file_finish env po fe files temp_path metadata0 = (Inl e, files))
   \<and> (metadata_autofill env po metadata0 = Inr metadata
        \<and> resolve_output fe metadata = Inr output_path \<and> files temp_path = Some staged \<longrightarrow>
      (let outcome = process_file_finish env po fe files temp_path metadata0;
           emitted = build_args po (strptime_ok fe)
                       (delete_keys_with_prefixes metadata stripped_prefixes) output_path
       in snd outcome output_path \<noteq> None
          \<and> (temp_path \<noteq> output_path \<longrightarrow> snd outcome temp_path = None)
          \<and> (\<forall>p. p \<noteq> temp_path \<and> p \<noteq> output_path \<longrightarrow> snd outcome p = files p)
          \<and> (\<forall>e'. emitted = Inl e' \<longrightarrow>
                 fst outcome = Inl e' \<and> snd outcome output_path = Some staged)
          \<and> (\<forall>args. emitted = Inr args \<longrightarrow>
                 snd outcome output_path = Some (snd (run_tool fe args staged))
                 \<and> fst outcome = (if fst (run_tool fe args staged) then Inr output_path
                                  else Inl (ToolError ''exiftool returned non-zero exit status'')))))"
proof (intro conjI impI)
  assume "metadata_autofill env po metadata0 = Inl e"
  then show "process_file_finish env po fe files temp_path metadata0 = (Inl e, files)"
    by (simp add: process_file_finish_def)
next
  assume "metadata_autofill env po metadata0 = Inr metadata \<and> resolve_output fe metadata = Inl e"
  then show "process_file_finish env po fe files temp_path metadata0 = (Inl e, files)"
    by (simp add: process_file_finish_def)
next
  assume a: "metadata_autofill env po metadata0 = Inr metadata
        \<and> resolve_output fe metadata = Inr output_path \<and> files temp_path = Some staged"
  let ?emitted = "build_args po (strptime_ok fe)
                    (delete_keys_with_prefixes metadata stripped_prefixes) output_path"
  let ?moved = "(files(temp_path := None))(output_path \<mapsto> staged)"
  have run: "process_file_finish env po fe files temp_path metadata0 =
      (case ?emitted of
         Inl e' \<Rightarrow> (Inl e', ?moved)
       | Inr args \<Rightarrow>
           (if fst (run_tool fe args staged) then Inr output_path
            else Inl (ToolError ''exiftool returned non-zero exit status''),
            ?moved(output_path \<mapsto> snd (run_tool fe args staged))))"
    using a by (simp add: process_file_finish_def Let_def split: sum.splits)
  show "let outcome = process_file_finish env po fe files temp_path metadata0;
            emitted = ?emitted
        in snd outcome output_path \<noteq> None
          \<and> (temp_path \<noteq> output_path \<longrightarrow> snd outcome temp_path = None)
          \<and> (\<forall>p. p \<noteq> temp_path \<and> p \<noteq> output_path \<longrightarrow> snd outcome p = files p)
          \<and> (\<forall>e'. emitted = Inl e' \<longrightarrow>
                 fst outcome = Inl e' \<and> snd outcome output_path = Some staged)
          \<and> (\<forall>args. emitted = Inr args \<longrightarrow>
                 snd outcome output_path = Some (snd (run_tool fe args staged))
                 \<and> fst outcome = (if fst (run_tool fe args staged) then Inr output_path
                                  else Inl (ToolError ''exiftool returned non-zero exit status'')))"
  proof (cases ?emitted)
    case (Inl e')
    then show ?thesis unfolding Let_def run by simp
  next
    case (Inr args)
    then show ?thesis unfolding Let_def run by simp
  qed
qed

theorem process_file_moves_before_tagging_witness:
  "metadata_autofill example_env int_ops [(''Make'', Lit (AStr ''Zenit''))]
     = Inr [(''Make'', Lit (AStr ''Zenit''))]
   \<and> resolve_output example_finish [(''Make'', Lit (AStr ''Zenit''))] = Inr ''out/a.tif''
   \<and> example_files ''tmp/a.tmp'' = Some ''staged image''
   \<and> fst (process_file_finish example_env int_ops example_finish example_files ''tmp/a.tmp''
            [(''Make'', Lit (AStr ''Zenit''))]) = Inr ''out/a.tif''
   \<and> snd (process_file_finish example_env int_ops example_finish example_files ''tmp/a.tmp''
            [(''Make'', Lit (AStr ''Zenit''))]) ''out/a.tif''
       = Some ''staged image-E-overwrite_original-Make=Zenitout/a.tif''
   \<and> snd (process_file_finish example_env int_ops example_finish example_files ''tmp/a.tmp''
            [(''Make'', Lit (AStr ''Zenit''))]) ''tmp/a.tmp'' = None"
proof -
  let ?md = "[(''Make'', Lit (AStr ''Zenit''))] :: int store"
  let ?outcome = "process_file_finish example_env int_ops example_finish example_files ''tmp/a.tmp'' ?md"
  have a: "metadata_autofill example_env int_ops ?md = Inr ?md" by code_simp
  have b: "resolve_output example_finish ?md = Inr ''out/a.tif''"
    by (simp add: example_finish_def)
  have c: "example_files ''tmp/a.tmp'' = Some ''staged image''"
    by (simp add: example_files_def)
  have d: "build_args int_ops (strptime_ok example_finish)
             (delete_keys_with_prefixes ?md stripped_prefixes) ''out/a.tif''
           = Inr [''-E'', ''-overwrite_original'', ''-Make=Zenit'', ''out/a.tif'']"
    by code_simp
  have r: "run_tool example_finish [''-E'', ''-overwrite_original'', ''-Make=Zenit'', ''out/a.tif'']
             ''staged image'' = (True, ''staged image-E-overwrite_original-Make=Zenitout/a.tif'')"
    by (simp add: example_finish_def)
  have ne: "''tmp/a.tmp'' \<noteq> ''out/a.tif''" by simp
  note t = process_file_moves_before_tagging
    [where env = example_env and po = int_ops and fe = example_finish and files = example_files
       and temp_path = "''tmp/a.tmp''" and ?metadata0.0 = ?md and metadata = ?md
       and output_path = "''out/a.tif''" and staged = "''staged image''"]
  have props: "(''tmp/a.tmp'' \<noteq> ''out/a.tif'' \<longrightarrow> snd ?outcome ''tmp/a.tmp'' = None)
      \<and> snd ?outcome ''out/a.tif''
            = Some (snd (run_tool example_finish
                [''-E'', ''-overwrite_original'', ''-Make=Zenit'', ''out/a.tif''] ''staged image''))
      \<and> fst ?outcome
            = (if fst (run_tool example_finish
                [''-E'', ''-overwrite_original'', ''-Make=Zenit'', ''out/a.tif''] ''staged image'')
               then Inr ''out/a.tif''
               else Inl (ToolError ''exiftool returned non-zero exit status''))"
    using t a b c d unfolding Let_def by blast
  show ?thesis using props a b c r ne by simp
qed

text \<open>
  The claim as the spec words it fails: with a tag still MANDATORY the terminal
  validation raises, and the staged file is by then at the output path, moved away from
  the temp path, with none of the new tags written.
\<close>

theorem process_file_finish_counterexample:
  "fst (process_file_finish example_env int_ops example_finish example_files ''tmp/a.tmp''
          [(''Make'', Mark MANDATORY)])
     = Inl (ValueError ''Error! Mandatory tag value not assigned.'')
   \<and> snd (process_file_finish example_env int_ops example_finish example_files ''tmp/a.tmp''
          [(''Make'', Mark MANDATORY)]) ''out/a.tif'' = Some ''staged image''
   \<and> snd (process_file_finish example_env int_ops example_finish example_files ''tmp/a.tmp''
          [(''Make'', Mark MANDATORY)]) ''tmp/a.tmp'' = None"
  by code_simp

end
